theory Spec2Isabelle
  imports Complex_Main "HOL-Library.Multiset"
begin

section \<open>Values, documents and the store\<close>

text \<open>
  The notice controller works on loosely typed request bodies.  Where the source tests a
  value for truthiness, for being an array, or calls \<^verbatim>\<open>includes\<close> on it, the value is
  kept as a JavaScript value.  Text is ASCII: a character is one byte.
\<close>

datatype jsval =
    JUndefined
  | JNull
  | JBool bool
  | JNum int
  | JStr string
  | JArr "jsval list"

fun truthy :: "jsval \<Rightarrow> bool" where
  "truthy JUndefined = False"
| "truthy JNull = False"
| "truthy (JBool b) = b"
| "truthy (JNum n) = (n \<noteq> 0)"
| "truthy (JStr s) = (s \<noteq> [])"
| "truthy (JArr xs) = True"

fun isArray :: "jsval \<Rightarrow> bool" where
  "isArray (JArr xs) = True"
| "isArray v = False"

type_synonym oid = nat

record target_audience =
  branches :: jsval
  years :: jsval

text \<open>
  The body of a create or update request.  A textual field is a string or absent; the
  target audience is an object or absent; \<^verbatim>\<open>isPublished\<close> is whatever value the
  request carries (a boolean from a JSON body, a string from a form), \<open>JUndefined\<close>
  when absent.
\<close>

record notice_body =
  b_title :: "string option"
  b_content :: "string option"
  b_category :: "string option"
  b_targetAudience :: "target_audience option"
  b_scheduledFor :: jsval
  b_priority :: "string option"
  b_attachmentUrl :: "string option"
  b_isPublished :: jsval

text \<open>
  A stored notice.  The controller writes \<^verbatim>\<open>author\<close>, \<^verbatim>\<open>targetAudience\<close>,
  \<^verbatim>\<open>scheduledFor\<close>, \<^verbatim>\<open>priority\<close>, \<^verbatim>\<open>attachmentUrl\<close> and \<^verbatim>\<open>isPublished\<close>; its
  listing filters on \<^verbatim>\<open>branch\<close>, \<^verbatim>\<open>year\<close> and \<^verbatim>\<open>teacher\<close> and its statistics sum
  \<^verbatim>\<open>views\<close>, which a stored document may or may not carry.
\<close>

record notice =
  n_id :: oid
  n_title :: string
  n_content :: string
  n_category :: string
  n_targetAudience :: "target_audience option"
  n_scheduledFor :: jsval
  n_priority :: "string option"
  n_attachmentUrl :: "string option"
  n_author :: oid
  n_isPublished :: bool
  n_createdAt :: int
  n_updatedAt :: "int option"
  n_branch :: "string option"
  n_year :: "int option"
  n_teacher :: "oid option"
  n_views :: nat

record user =
  u_id :: oid
  u_name :: string
  u_role :: string
  u_branch :: jsval
  u_year :: jsval

record notification =
  nf_recipient :: oid
  nf_type :: string
  nf_title :: string
  nf_message :: string
  nf_noticeId :: oid
  nf_category :: string
  nf_priority :: "string option"

datatype violation =
    TitleRequired
  | TitleTooLong
  | ContentRequired
  | ContentTooLong
  | CategoryRequired
  | CategoryNotInEnum
  | BranchRequired
  | BranchNotInEnum
  | YearRequired
  | YearOutOfRange
  | TeacherRequired
  | OtherViolation string

text \<open>An error value: a message, or the validation error of the model with its violations.\<close>

datatype err =
    Msg string
  | ValidationError "violation list"

text \<open>
  The collections, the next identifier the database hands out, and two observation
  fields: \<open>fanout_log\<close> records each call of \<^verbatim>\<open>createNotifications\<close> by the identifier
  of its argument (\<open>None\<close> for \<^verbatim>\<open>null\<close>), \<open>console\<close> records what \<^verbatim>\<open>console.error\<close>
  printed.
\<close>

record world =
  w_notices :: "notice list"
  w_notifications :: "notification list"
  w_users :: "user list"
  w_fresh :: oid
  fanout_log :: "oid option list"
  console :: "err list"

text \<open>
  A JavaScript number as the listing meets it: an integer that a double holds, NaN, or
  an infinity (\<open>True\<close> for the positive one).  Zero has no sign here.
\<close>

datatype jsnum =
    JsFinite int
  | JsNaN
  | JsInfinity bool

text \<open>
  What the source leaves to its collaborators.  Each database call may throw: a fault
  field holds the thrown error, if any (a bulk insert also says how many documents it
  wrote before failing).  \<open>create_rest\<close> and \<open>update_rest\<close> are the validators of the
  loaded model for the fields other than title, content and category, and
  \<open>stored_published\<close> is the value the model stores for a body's \<^verbatim>\<open>isPublished\<close> that
  it accepts.  \<open>short_id\<close> is the cast of a 12-character string to an identifier,
  which depends on the version of the library.  \<open>regex_engine\<close> is the database's
  case-insensitive regular-expression search for a pattern that uses operators other than
  the dot: the pattern is rejected, or it denotes a test on strings.  \<open>odd_paging\<close> is
  what the database returns for a skip or a limit that is NaN, infinite, negative or
  beyond \<open>2\<^sup>5\<^sup>3\<close>.  \<open>pages_beyond\<close> is \<^verbatim>\<open>Math.ceil(total / limit)\<close> for a total beyond
  \<open>2\<^sup>5\<^sup>3\<close>, where the quotient of two doubles is not the exact one.  \<open>now\<close> is
  \<^verbatim>\<open>Date.now()\<close>.
\<close>

record env =
  findById_fault :: "err option"
  create_fault :: "err option"
  update_fault :: "err option"
  remove_fault :: "err option"
  find_fault :: "err option"
  count_fault :: "err option"
  aggregate_fault :: "err option"
  userFind_fault :: "err option"
  insertMany_fault :: "(err \<times> nat) option"
  create_rest :: "notice_body \<Rightarrow> violation list"
  update_rest :: "notice_body \<Rightarrow> violation list"
  stored_published :: "jsval \<Rightarrow> bool"
  short_id :: "string \<Rightarrow> err + oid"
  regex_engine :: "string \<Rightarrow> err + (string \<Rightarrow> bool)"
  odd_paging :: "jsnum \<Rightarrow> jsnum \<Rightarrow> notice list \<Rightarrow> err + notice list"
  pages_beyond :: "nat \<Rightarrow> int \<Rightarrow> int option"
  now :: int

section \<open>Strings\<close>

fun startsWith :: "string \<Rightarrow> string \<Rightarrow> bool" where
  "startsWith s [] = True"
| "startsWith [] (p # ps) = False"
| "startsWith (c # cs) (p # ps) = (c = p \<and> startsWith cs ps)"

text \<open>\<^verbatim>\<open>String.prototype.includes\<close>: the pattern occurs somewhere in the string.\<close>

fun str_includes :: "string \<Rightarrow> string \<Rightarrow> bool" where
  "str_includes [] p = (p = [])"
| "str_includes (c # cs) p = (startsWith (c # cs) p \<or> str_includes cs p)"

definition is_space :: "char \<Rightarrow> bool" where
  "is_space c = (c \<in> set [CHR 0x20, CHR 0x09, CHR 0x0A, CHR 0x0B, CHR 0x0C, CHR 0x0D])"

definition trim :: "string \<Rightarrow> string" where
  "trim s = rev (dropWhile is_space (rev (dropWhile is_space s)))"

text \<open>Digits: the value of a digit character, and the number a run of digits denotes.\<close>

definition digit_of :: "char \<Rightarrow> int option" where
  "digit_of c =
     map_of (zip ''0123456789abcdef'' [0, 1, 2, 3, 4, 5, 6, 7, 8, 9, 10, 11, 12, 13, 14, 15] @
             zip ''ABCDEF'' [10, 11, 12, 13, 14, 15]) c"

fun digits_prefix :: "int \<Rightarrow> string \<Rightarrow> int list" where
  "digits_prefix r [] = []"
| "digits_prefix r (c # cs) =
     (case digit_of c of
        None \<Rightarrow> []
      | Some d \<Rightarrow> if d < r then d # digits_prefix r cs else [])"

definition number_of :: "int \<Rightarrow> int list \<Rightarrow> int" where
  "number_of r ds = foldl (\<lambda>a d. a * r + d) 0 ds"

section \<open>Numbers\<close>

text \<open>
  A JavaScript number is a double.  An integer up to \<open>2\<^sup>5\<^sup>3\<close> in magnitude is held
  exactly; a larger one is rounded to 53 significant bits, to the nearest and to even on
  a tie, and to an infinity from \<open>2\<^sup>1\<^sup>0\<^sup>2\<^sup>4\<close> on.
\<close>

function bit_length :: "int \<Rightarrow> nat" where
  "bit_length k = (if k \<le> 0 then 0 else Suc (bit_length (k div 2)))"
  by pat_completeness auto
termination
  by (relation "measure nat") auto

declare bit_length.simps [simp del]

definition to_double :: "int \<Rightarrow> jsnum" where
  "to_double k =
     (let m = \<bar>k\<bar> in
      if m \<le> 2 ^ 53 then JsFinite k
      else
        (let s = bit_length m - 53;
             q = m div 2 ^ s;
             r = m mod 2 ^ s;
             q' = (if 2 ^ s < 2 * r \<or> (2 * r = 2 ^ s \<and> odd q) then q + 1 else q);
             v = q' * 2 ^ s
         in if 2 ^ 1024 \<le> v then JsInfinity (0 < k)
            else JsFinite (if k < 0 then - v else v)))"

text \<open>
  \<^verbatim>\<open>parseInt\<close> without a radix: leading white space, a sign, an optional \<^verbatim>\<open>0x\<close>, then
  the longest run of digits; no digit gives NaN; the number the digits denote is
  returned as a double.
\<close>

definition parseInt :: "string \<Rightarrow> jsnum" where
  "parseInt s =
     (let s1 = dropWhile is_space s;
          neg = (case s1 of [] \<Rightarrow> False | c # cs \<Rightarrow> c = CHR ''-'');
          s2 = (case s1 of [] \<Rightarrow> [] | c # cs \<Rightarrow> if c = CHR ''-'' \<or> c = CHR ''+'' then cs else s1);
          hex = (startsWith s2 ''0x'' \<or> startsWith s2 ''0X'');
          r = (if hex then 16 else 10);
          ds = digits_prefix r (if hex then drop 2 s2 else s2)
      in if ds = [] then JsNaN
         else to_double (if neg then - number_of r ds else number_of r ds))"

text \<open>Subtracting one, and multiplying, as doubles do.\<close>

fun js_minus_one :: "jsnum \<Rightarrow> jsnum" where
  "js_minus_one (JsFinite k) = to_double (k - 1)"
| "js_minus_one JsNaN = JsNaN"
| "js_minus_one (JsInfinity s) = JsInfinity s"

fun js_times :: "jsnum \<Rightarrow> jsnum \<Rightarrow> jsnum" where
  "js_times (JsFinite a) (JsFinite b) = to_double (a * b)"
| "js_times (JsFinite a) (JsInfinity t) = (if a = 0 then JsNaN else JsInfinity (t = (0 < a)))"
| "js_times (JsInfinity s) (JsFinite b) = (if b = 0 then JsNaN else JsInfinity (s = (0 < b)))"
| "js_times (JsInfinity s) (JsInfinity t) = JsInfinity (s = t)"
| "js_times JsNaN y = JsNaN"
| "js_times x JsNaN = JsNaN"

text \<open>A number in a JSON response: NaN and the infinities are written \<^verbatim>\<open>null\<close>.\<close>

fun json_number :: "jsnum \<Rightarrow> int option" where
  "json_number (JsFinite k) = Some k"
| "json_number x = None"

section \<open>The Notice schema\<close>

text \<open>
  Title: required, trimmed, at most 100 characters.  Content: required, at most 1000
  characters.  Category: required, one of five values.  The trim setter runs when the
  value is set, so the validators see the trimmed title; the first failing validator of
  a path is the one reported, and \<^verbatim>\<open>required\<close> comes first.

  The schema file of the source is the flat variant: it also declares \<^verbatim>\<open>branch\<close>,
  \<^verbatim>\<open>year\<close> and \<^verbatim>\<open>teacher\<close>, which the controller never writes, and none of the fields
  the controller does write.  The rules of those other fields are therefore the
  parameters \<open>create_rest\<close> and \<open>update_rest\<close>; \<open>flat_schema_rest\<close> below is what
  they are for a new document when the loaded schema is the one of the source.
\<close>

definition category_enum :: "string list" where
  "category_enum = [''General'', ''Academic'', ''Event'', ''Important'', ''Other'']"

definition validate_title :: "string \<Rightarrow> violation list" where
  "validate_title t =
     (if trim t = [] then [TitleRequired]
      else if length (trim t) > 100 then [TitleTooLong]
      else [])"

definition validate_content :: "string \<Rightarrow> violation list" where
  "validate_content c =
     (if c = [] then [ContentRequired]
      else if length c > 1000 then [ContentTooLong]
      else [])"

definition validate_category :: "string \<Rightarrow> violation list" where
  "validate_category c =
     (if c = [] then [CategoryRequired]
      else if c \<notin> set category_enum then [CategoryNotInEnum]
      else [])"






text \<open>Validation of a new document: a missing required field is a violation.\<close>

definition validate_new :: "env \<Rightarrow> notice_body \<Rightarrow> violation list" where
  "validate_new e b =
     (case b_title b of None \<Rightarrow> [TitleRequired] | Some t \<Rightarrow> validate_title t) @
     (case b_content b of None \<Rightarrow> [ContentRequired] | Some c \<Rightarrow> validate_content c) @
     (case b_category b of None \<Rightarrow> [CategoryRequired] | Some c \<Rightarrow> validate_category c) @
     create_rest e b"

text \<open>Update validators run on the supplied paths only.\<close>

definition validate_update :: "env \<Rightarrow> notice_body \<Rightarrow> violation list" where
  "validate_update e b =
     (case b_title b of None \<Rightarrow> [] | Some t \<Rightarrow> validate_title t) @
     (case b_content b of None \<Rightarrow> [] | Some c \<Rightarrow> validate_content c) @
     (case b_category b of None \<Rightarrow> [] | Some c \<Rightarrow> validate_category c) @
     update_rest e b"

section \<open>Responses\<close>

text \<open>\<^verbatim>\<open>populate('teacher', 'name')\<close>: the teacher reference resolved to identifier and name.\<close>

record populated =
  p_notice :: notice
  p_teacher :: "(oid \<times> string) option"

text \<open>
  A number that is NaN or infinite is serialised as \<^verbatim>\<open>null\<close> in a JSON response: such a
  field is \<open>None\<close>.
\<close>

record list_result =
  l_count :: nat
  l_total :: nat
  l_totalPages :: "int option"
  l_page :: "int option"
  l_data :: "populated list"

record stats_result =
  categoryStats :: "(string \<times> nat \<times> nat) list"
  priorityStats :: "(string option \<times> nat) list"
  monthlyStats :: "((int \<times> int) \<times> nat) list"

datatype body =
    ErrorBody err
  | NoticeBody notice
  | PopulatedBody populated
  | ListBody list_result
  | StatsBody stats_result
  | EmptyBody
  | NullBody

record response =
  r_status :: nat
  r_success :: bool
  r_body :: body

definition failure :: "nat \<Rightarrow> err \<Rightarrow> response" where
  "failure code e = \<lparr>r_status = code, r_success = False, r_body = ErrorBody e\<rparr>"

definition success :: "nat \<Rightarrow> body \<Rightarrow> response" where
  "success code b = \<lparr>r_status = code, r_success = True, r_body = b\<rparr>"

section \<open>Notification fan-out\<close>

text \<open>
  \<^verbatim>\<open>v.includes('All')\<close> on a truthy value: membership for an array, substring for a
  string; a number or a boolean has no such method and the call throws.
\<close>

fun includes_All :: "jsval \<Rightarrow> err + bool" where
  "includes_All (JArr xs) = Inr (JStr ''All'' \<in> set xs)"
| "includes_All (JStr s) = Inr (str_includes s ''All'')"
| "includes_All v = Inl (Msg ''includes is not a function'')"

text \<open>The recipient query: the role, and an optional \<^verbatim>\<open>$in\<close> operand per dimension.\<close>

record user_query =
  q_role :: string
  q_branch_in :: "jsval option"
  q_year_in :: "jsval option"

definition narrow :: "jsval \<Rightarrow> err + jsval option" where
  "narrow sel =
     (if truthy sel then
        (case includes_All sel of
           Inl e \<Rightarrow> Inl e
         | Inr has_all \<Rightarrow> Inr (if has_all then None else Some sel))
      else Inr None)"

definition recipient_query :: "notice \<Rightarrow> err + user_query" where
  "recipient_query n =
     (case n_targetAudience n of
        None \<Rightarrow> Inr \<lparr>q_role = ''student'', q_branch_in = None, q_year_in = None\<rparr>
      | Some ta \<Rightarrow>
          (case narrow (branches ta) of
             Inl e \<Rightarrow> Inl e
           | Inr qb \<Rightarrow>
               (case narrow (years ta) of
                  Inl e \<Rightarrow> Inl e
                | Inr qy \<Rightarrow> Inr \<lparr>q_role = ''student'', q_branch_in = qb, q_year_in = qy\<rparr>)))"

text \<open>
  Modelled from the spec: the User collection's lookup, which is not part of the source.
  A user matches \<^verbatim>\<open>{$in: vs}\<close> when its field is one of the values; an operand that is
  not an array is rejected by the database.
\<close>

fun in_operand :: "jsval option \<Rightarrow> err + (jsval \<Rightarrow> bool)" where
  "in_operand None = Inr (\<lambda>v. True)"
| "in_operand (Some (JArr vs)) = Inr (\<lambda>v. v \<in> set vs)"
| "in_operand (Some v) = Inl (Msg ''$in needs an array'')"

definition User_find :: "env \<Rightarrow> world \<Rightarrow> user_query \<Rightarrow> err + user list" where
  "User_find e w q =
     (case userFind_fault e of
        Some er \<Rightarrow> Inl er
      | None \<Rightarrow>
          (case in_operand (q_branch_in q) of
             Inl er \<Rightarrow> Inl er
           | Inr okb \<Rightarrow>
               (case in_operand (q_year_in q) of
                  Inl er \<Rightarrow> Inl er
                | Inr oky \<Rightarrow>
                    Inr (filter (\<lambda>u. u_role u = q_role q \<and> okb (u_branch u) \<and> oky (u_year u))
                          (w_users w)))))"

definition notification_for :: "notice \<Rightarrow> user \<Rightarrow> notification" where
  "notification_for n student =
     \<lparr>nf_recipient = u_id student,
      nf_type = ''notice_posted'',
      nf_title = ''New Notice'',
      nf_message = n_title n,
      nf_noticeId = n_id n,
      nf_category = n_category n,
      nf_priority = n_priority n\<rparr>"

text \<open>The bulk insert; a failing insert may have written a prefix of the documents.\<close>

definition Notification_insertMany :: "env \<Rightarrow> world \<Rightarrow> notification list \<Rightarrow> (err option) \<times> world" where
  "Notification_insertMany e w docs =
     (case insertMany_fault e of
        None \<Rightarrow> (None, w\<lparr>w_notifications := w_notifications w @ docs\<rparr>)
      | Some (er, k) \<Rightarrow> (Some er, w\<lparr>w_notifications := w_notifications w @ take k docs\<rparr>))"

text \<open>
  \<^verbatim>\<open>createNotifications\<close>: everything thrown inside is caught, printed and dropped.
  Reading a property of \<^verbatim>\<open>null\<close> throws like anything else.
\<close>

definition createNotifications :: "env \<Rightarrow> world \<Rightarrow> notice option \<Rightarrow> world" where
  "createNotifications e w arg =
     (let w0 = w\<lparr>fanout_log := fanout_log w @ [map_option n_id arg]\<rparr> in
      case arg of
        None \<Rightarrow> w0\<lparr>console := console w0 @ [Msg ''Cannot read properties of null'']\<rparr>
      | Some n \<Rightarrow>
          (case recipient_query n of
             Inl er \<Rightarrow> w0\<lparr>console := console w0 @ [er]\<rparr>
           | Inr q \<Rightarrow>
               (case User_find e w0 q of
                  Inl er \<Rightarrow> w0\<lparr>console := console w0 @ [er]\<rparr>
                | Inr students \<Rightarrow>
                    (case Notification_insertMany e w0 (map (notification_for n) students) of
                       (None, w1) \<Rightarrow> w1
                     | (Some er, w1) \<Rightarrow> w1\<lparr>console := console w1 @ [er]\<rparr>))))"

section \<open>The Notice collection\<close>

text \<open>
  An identifier arrives as a string of the URL and is cast before the database is
  asked: 24 hexadecimal digits denote an identifier; a string of 12 characters is left to
  the library's version; for any other string the cast throws.
\<close>

definition castObjectId :: "env \<Rightarrow> string \<Rightarrow> err + oid" where
  "castObjectId e s =
     (if length s = 24 \<and> list_all (\<lambda>c. digit_of c \<noteq> None) s
      then Inr (nat (number_of 16 (digits_prefix 16 s)))
      else if length s = 12 then short_id e s
      else Inl (Msg (''Cast to ObjectId failed for value '' @ s)))"

definition Notice_findById :: "env \<Rightarrow> world \<Rightarrow> string \<Rightarrow> err + notice option" where
  "Notice_findById e w rid =
     (case castObjectId e rid of
        Inl er \<Rightarrow> Inl er
      | Inr i \<Rightarrow>
          (case findById_fault e of
             Some er \<Rightarrow> Inl er
           | None \<Rightarrow> Inr (find (\<lambda>n. n_id n = i) (w_notices w))))"

text \<open>
  \<^verbatim>\<open>Notice.create\<close>: validate, then store under a fresh identifier.  The stored title is
  the trimmed one; \<^verbatim>\<open>createdAt\<close> defaults to the current time.
\<close>

definition Notice_create ::
  "env \<Rightarrow> world \<Rightarrow> notice_body \<Rightarrow> oid \<Rightarrow> bool \<Rightarrow> err + (notice \<times> world)" where
  "Notice_create e w b author published =
     (case (validate_new e b, b_title b, b_content b, b_category b) of
        ([], Some t, Some c, Some k) \<Rightarrow>
          (case create_fault e of
             Some er \<Rightarrow> Inl er
           | None \<Rightarrow>
               (let n = \<lparr>n_id = w_fresh w,
                         n_title = trim t,
                         n_content = c,
                         n_category = k,
                         n_targetAudience = b_targetAudience b,
                         n_scheduledFor = b_scheduledFor b,
                         n_priority = b_priority b,
                         n_attachmentUrl = b_attachmentUrl b,
                         n_author = author,
                         n_isPublished = published,
                         n_createdAt = now e,
                         n_updatedAt = None,
                         n_branch = None,
                         n_year = None,
                         n_teacher = None,
                         n_views = 0\<rparr>
                in Inr (n, w\<lparr>w_notices := w_notices w @ [n], w_fresh := Suc (w_fresh w)\<rparr>)))
      | (vs, _, _, _) \<Rightarrow> Inl (ValidationError vs))"

text \<open>
  \<^verbatim>\<open>Notice.findByIdAndUpdate\<close> with \<^verbatim>\<open>new\<close> and \<^verbatim>\<open>runValidators\<close>: the supplied fields
  replace the stored ones, \<^verbatim>\<open>updatedAt\<close> is always set, and the updated document is
  returned (nothing, when no document has the identifier).  What the library does with
  a field the body leaves undefined is not in the source; it is modelled from the spec:
  ``a full-document field replacement (only supplied fields)'', so such a field keeps its
  stored value.  A supplied \<^verbatim>\<open>isPublished\<close> is stored as the model casts it.
\<close>

definition apply_update :: "env \<Rightarrow> notice_body \<Rightarrow> notice \<Rightarrow> notice" where
  "apply_update e b n =
     n\<lparr>n_title := (case b_title b of None \<Rightarrow> n_title n | Some t \<Rightarrow> trim t),
       n_content := (case b_content b of None \<Rightarrow> n_content n | Some c \<Rightarrow> c),
       n_category := (case b_category b of None \<Rightarrow> n_category n | Some c \<Rightarrow> c),
       n_targetAudience :=
         (case b_targetAudience b of None \<Rightarrow> n_targetAudience n | Some ta \<Rightarrow> Some ta),
       n_scheduledFor :=
         (if b_scheduledFor b = JUndefined then n_scheduledFor n else b_scheduledFor b),
       n_priority := (case b_priority b of None \<Rightarrow> n_priority n | Some p \<Rightarrow> Some p),
       n_attachmentUrl :=
         (case b_attachmentUrl b of None \<Rightarrow> n_attachmentUrl n | Some a \<Rightarrow> Some a),
       n_isPublished :=
         (if b_isPublished b = JUndefined then n_isPublished n
          else stored_published e (b_isPublished b)),
       n_updatedAt := Some (now e)\<rparr>"

definition Notice_findByIdAndUpdate ::
  "env \<Rightarrow> world \<Rightarrow> string \<Rightarrow> notice_body \<Rightarrow> err + (notice option \<times> world)" where
  "Notice_findByIdAndUpdate e w rid b =
     (case castObjectId e rid of
        Inl er \<Rightarrow> Inl er
      | Inr i \<Rightarrow>
          (if validate_update e b \<noteq> [] then Inl (ValidationError (validate_update e b))
           else case update_fault e of
             Some er \<Rightarrow> Inl er
           | None \<Rightarrow>
               Inr (map_option (apply_update e b) (find (\<lambda>n. n_id n = i) (w_notices w)),
                    w\<lparr>w_notices :=
                         map (\<lambda>n. if n_id n = i then apply_update e b n else n)
                           (w_notices w)\<rparr>)))"

definition Notice_remove :: "env \<Rightarrow> world \<Rightarrow> notice \<Rightarrow> err + world" where
  "Notice_remove e w n =
     (case remove_fault e of
        Some er \<Rightarrow> Inl er
      | None \<Rightarrow> Inr (w\<lparr>w_notices := filter (\<lambda>m. n_id m \<noteq> n_id n) (w_notices w)\<rparr>))"

section \<open>The controller\<close>

subsection \<open>createNotice\<close>

definition createNotice :: "env \<Rightarrow> world \<Rightarrow> user \<Rightarrow> notice_body \<Rightarrow> response \<times> world" where
  "createNotice e w u b =
     (if (case b_targetAudience b of
            None \<Rightarrow> False
          | Some ta \<Rightarrow> truthy (branches ta) \<and> \<not> isArray (branches ta))
      then (failure 400 (Msg ''Branches must be an array''), w)
      else if (case b_targetAudience b of
                 None \<Rightarrow> False
               | Some ta \<Rightarrow> truthy (years ta) \<and> \<not> isArray (years ta))
      then (failure 400 (Msg ''Years must be an array''), w)
      else
        (case Notice_create e w b (u_id u) (\<not> truthy (b_scheduledFor b)) of
           Inl er \<Rightarrow> (failure 400 er, w)
         | Inr (n, w1) \<Rightarrow>
             (success 201 (NoticeBody n),
              if \<not> truthy (b_scheduledFor b) then createNotifications e w1 (Some n) else w1)))"

subsection \<open>updateNotice\<close>

definition updateNotice ::
  "env \<Rightarrow> world \<Rightarrow> user \<Rightarrow> string \<Rightarrow> notice_body \<Rightarrow> response \<times> world" where
  "updateNotice e w u rid b =
     (case Notice_findById e w rid of
        Inl er \<Rightarrow> (failure 400 er, w)
      | Inr None \<Rightarrow> (failure 404 (Msg ''Notice not found''), w)
      | Inr (Some n) \<Rightarrow>
          (if n_author n \<noteq> u_id u \<and> u_role u \<noteq> ''admin''
           then (failure 403 (Msg ''Not authorized to update this notice''), w)
           else
             (case Notice_findByIdAndUpdate e w rid b of
                Inl er \<Rightarrow> (failure 400 er, w)
              | Inr (updatedNotice, w1) \<Rightarrow>
                  (success 200 (case updatedNotice of None \<Rightarrow> NullBody | Some m \<Rightarrow> NoticeBody m),
                   if truthy (b_isPublished b) \<and> \<not> n_isPublished n
                   then createNotifications e w1 updatedNotice else w1))))"

subsection \<open>deleteNotice\<close>

definition deleteNotice :: "env \<Rightarrow> world \<Rightarrow> user \<Rightarrow> string \<Rightarrow> response \<times> world" where
  "deleteNotice e w u rid =
     (case Notice_findById e w rid of
        Inl er \<Rightarrow> (failure 500 er, w)
      | Inr None \<Rightarrow> (failure 404 (Msg ''Notice not found''), w)
      | Inr (Some n) \<Rightarrow>
          (if n_author n \<noteq> u_id u \<and> u_role u \<noteq> ''admin''
           then (failure 403 (Msg ''Not authorized to delete this notice''), w)
           else
             (case Notice_remove e w n of
                Inl er \<Rightarrow> (failure 500 er, w)
              | Inr w1 \<Rightarrow> (success 200 EmptyBody, w1))))"

subsection \<open>getNotice\<close>

definition populate :: "world \<Rightarrow> notice \<Rightarrow> populated" where
  "populate w n =
     \<lparr>p_notice = n,
      p_teacher =
        (case n_teacher n of
           None \<Rightarrow> None
         | Some t \<Rightarrow> map_option (\<lambda>u. (u_id u, u_name u)) (find (\<lambda>u. u_id u = t) (w_users w)))\<rparr>"

definition getNotice :: "env \<Rightarrow> world \<Rightarrow> string \<Rightarrow> response \<times> world" where
  "getNotice e w rid =
     (case Notice_findById e w rid of
        Inl er \<Rightarrow> (failure 500 er, w)
      | Inr None \<Rightarrow> (failure 404 (Msg ''Notice not found''), w)
      | Inr (Some n) \<Rightarrow> (success 200 (PopulatedBody (populate w n)), w))"

subsection \<open>getNotices\<close>

text \<open>
  The query string.  Category, branch, search, page and limit are strings or absent;
  year and teacher are given as the values the model casts them to (a value that cannot
  be cast makes the lookup throw, which is \<open>find_fault\<close>).
\<close>

record list_query =
  lq_category :: "string option"
  lq_branch :: "string option"
  lq_year :: "int option"
  lq_teacher :: "oid option"
  lq_search :: "string option"
  lq_page :: "string option"
  lq_limit :: "string option"

definition given :: "string option \<Rightarrow> bool" where
  "given v = (case v of None \<Rightarrow> False | Some s \<Rightarrow> s \<noteq> [])"

text \<open>The filter document sent to the database.\<close>

record notice_query =
  nq_category :: "string option"
  nq_branch :: "string option"
  nq_year :: "int option"
  nq_teacher :: "oid option"
  nq_regex :: "string option"

definition build_query :: "list_query \<Rightarrow> notice_query" where
  "build_query q =
     \<lparr>nq_category = (if given (lq_category q) then lq_category q else None),
      nq_branch = (if given (lq_branch q) then lq_branch q else None),
      nq_year = lq_year q,
      nq_teacher = lq_teacher q,
      nq_regex = (if given (lq_search q) then lq_search q else None)\<rparr>"

text \<open>
  \<^verbatim>\<open>{$regex: search, $options: 'i'}\<close>: the search term is a regular expression, looked
  for anywhere in the field, letters compared without case.  A pattern of plain
  characters and dots is matched here (a dot stands for any character but a line feed);
  a pattern with another operator goes to \<open>regex_engine\<close>.
\<close>

definition regex_operators :: "char list" where
  "regex_operators =
     [CHR ''^'', CHR ''$'', CHR ''*'', CHR ''+'', CHR ''?'', CHR ''('', CHR '')'',
      CHR ''['', CHR '']'', CHR ''{'', CHR ''}'', CHR ''|'', CHR 0x5C]"

definition lower :: "char \<Rightarrow> char" where
  "lower c =
     (case map_of (zip ''ABCDEFGHIJKLMNOPQRSTUVWXYZ'' ''abcdefghijklmnopqrstuvwxyz'') c of
        None \<Rightarrow> c
      | Some d \<Rightarrow> d)"

definition char_match :: "char \<Rightarrow> char \<Rightarrow> bool" where
  "char_match p c = (if p = CHR ''.'' then c \<noteq> CHR 0x0A else lower p = lower c)"

fun match_here :: "string \<Rightarrow> string \<Rightarrow> bool" where
  "match_here [] s = True"
| "match_here (p # ps) [] = False"
| "match_here (p # ps) (c # cs) = (char_match p c \<and> match_here ps cs)"

fun match_anywhere :: "string \<Rightarrow> string \<Rightarrow> bool" where
  "match_anywhere p [] = match_here p []"
| "match_anywhere p (c # cs) = (match_here p (c # cs) \<or> match_anywhere p cs)"

definition regex_i :: "env \<Rightarrow> string \<Rightarrow> err + (string \<Rightarrow> bool)" where
  "regex_i e p =
     (if list_all (\<lambda>c. c \<notin> set regex_operators) p then Inr (match_anywhere p)
      else regex_engine e p)"

text \<open>The documents a filter selects, in collection order.\<close>

definition Notice_matching :: "env \<Rightarrow> world \<Rightarrow> notice_query \<Rightarrow> err + notice list" where
  "Notice_matching e w nq =
     (case (case nq_regex nq of None \<Rightarrow> Inr (\<lambda>s. True) | Some p \<Rightarrow> regex_i e p) of
        Inl er \<Rightarrow> Inl er
      | Inr test \<Rightarrow>
          Inr (filter
                (\<lambda>n. (case nq_category nq of None \<Rightarrow> True | Some c \<Rightarrow> n_category n = c) \<and>
                      (case nq_branch nq of None \<Rightarrow> True | Some b \<Rightarrow> n_branch n = Some b) \<and>
                      (case nq_year nq of None \<Rightarrow> True | Some y \<Rightarrow> n_year n = Some y) \<and>
                      (case nq_teacher nq of None \<Rightarrow> True | Some t \<Rightarrow> n_teacher n = Some t) \<and>
                      (case nq_regex nq of
                         None \<Rightarrow> True
                       | Some p \<Rightarrow> test (n_title n) \<or> test (n_content n)))
                (w_notices w)))"

text \<open>
  Skip and limit as the database applies them, after the sort: a limit of zero is no
  limit.  What it does outside the integers from 0 to \<open>2\<^sup>5\<^sup>3\<close> is \<open>odd_paging\<close>.
\<close>

definition paginate :: "env \<Rightarrow> jsnum \<Rightarrow> jsnum \<Rightarrow> notice list \<Rightarrow> err + notice list" where
  "paginate e skip lmt xs =
     (case skip of
        JsFinite s \<Rightarrow>
          (case lmt of
             JsFinite l \<Rightarrow>
               (if 0 \<le> s \<and> s \<le> 2 ^ 53 \<and> 0 \<le> l \<and> l \<le> 2 ^ 53
                then Inr (if l = 0 then drop (nat s) xs else take (nat l) (drop (nat s) xs))
                else odd_paging e skip lmt xs)
           | _ \<Rightarrow> odd_paging e skip lmt xs)
      | _ \<Rightarrow> odd_paging e skip lmt xs)"

text \<open>
  \<^verbatim>\<open>Notice.find(query).skip(skip).limit(limit).sort({createdAt: -1})\<close>: the query builder
  sorts first, whatever the order of the calls.  Documents created at the same time keep
  their collection order.
\<close>

definition Notice_find ::
  "env \<Rightarrow> world \<Rightarrow> notice_query \<Rightarrow> jsnum \<Rightarrow> jsnum \<Rightarrow> err + notice list" where
  "Notice_find e w nq skip lmt =
     (case find_fault e of
        Some er \<Rightarrow> Inl er
      | None \<Rightarrow>
          (case Notice_matching e w nq of
             Inl er \<Rightarrow> Inl er
           | Inr ms \<Rightarrow> paginate e skip lmt (sort_key (\<lambda>n. - n_createdAt n) ms)))"

definition Notice_countDocuments :: "env \<Rightarrow> world \<Rightarrow> notice_query \<Rightarrow> err + nat" where
  "Notice_countDocuments e w nq =
     (case count_fault e of
        Some er \<Rightarrow> Inl er
      | None \<Rightarrow>
          (case Notice_matching e w nq of
             Inl er \<Rightarrow> Inl er
           | Inr ms \<Rightarrow> Inr (length ms)))"

text \<open>
  \<^verbatim>\<open>Math.ceil(total / limit)\<close> as the response shows it.  A limit that is NaN or zero
  gives NaN or an infinity, written \<^verbatim>\<open>null\<close>; an infinite limit gives zero.  For a
  total up to \<open>2\<^sup>5\<^sup>3\<close> the ceiling of the quotient of the two doubles is the ceiling
  of the exact quotient.
\<close>

definition ceil_div :: "env \<Rightarrow> nat \<Rightarrow> jsnum \<Rightarrow> int option" where
  "ceil_div e tot lmt =
     (case lmt of
        JsNaN \<Rightarrow> None
      | JsInfinity s \<Rightarrow> Some 0
      | JsFinite l \<Rightarrow>
          if l = 0 then None
          else if int tot \<le> 2 ^ 53 then Some (- ((- int tot) div l))
          else pages_beyond e tot l)"

definition getNotices :: "env \<Rightarrow> world \<Rightarrow> list_query \<Rightarrow> response \<times> world" where
  "getNotices e w q =
     (let page = (case lq_page q of None \<Rightarrow> JsFinite 1 | Some s \<Rightarrow> parseInt s);
          lmt = (case lq_limit q of None \<Rightarrow> JsFinite 10 | Some s \<Rightarrow> parseInt s);
          skip = js_times (js_minus_one page) lmt
      in case Notice_find e w (build_query q) skip lmt of
           Inl er \<Rightarrow> (failure 500 er, w)
         | Inr found \<Rightarrow>
             (case Notice_countDocuments e w (build_query q) of
                Inl er \<Rightarrow> (failure 500 er, w)
              | Inr tot \<Rightarrow>
                  (success 200
                     (ListBody \<lparr>l_count = length found,
                               l_total = tot,
                               l_totalPages = ceil_div e tot lmt,
                               l_page = json_number page,
                               l_data = map (populate w) found\<rparr>),
                   w)))"

subsection \<open>getNoticeStats\<close>

text \<open>
  \<^verbatim>\<open>$year\<close> and \<^verbatim>\<open>$month\<close> of a time in milliseconds since 1970, in UTC (the proleptic
  Gregorian calendar, computed from the day number).
\<close>

definition year_month :: "int \<Rightarrow> int \<times> int" where
  "year_month ms =
     (let z = ms div 86400000 + 719468;
          era = z div 146097;
          doe = z mod 146097;
          yoe = (doe - doe div 1460 + doe div 36524 - doe div 146096) div 365;
          doy = doe - (365 * yoe + yoe div 4 - yoe div 100);
          mp = (5 * doy + 2) div 153;
          m = (if mp < 10 then mp + 3 else mp - 9);
          y = yoe + era * 400
      in (if m \<le> 2 then y + 1 else y, m))"

text \<open>
  \<^verbatim>\<open>$group\<close>: one group per distinct key, here in the order of first occurrence; a sort
  keeps groups with equal keys in that order.
\<close>

definition group_keys :: "'a list \<Rightarrow> 'a list" where
  "group_keys ks = rev (remdups (rev ks))"

definition Notice_aggregate_category :: "notice list \<Rightarrow> (string \<times> nat \<times> nat) list" where
  "Notice_aggregate_category mine =
     sort_key (\<lambda>(k, c, v). - int c)
       (map (\<lambda>k. (k, length (filter (\<lambda>n. n_category n = k) mine),
                     sum_list (map n_views (filter (\<lambda>n. n_category n = k) mine))))
            (group_keys (map n_category mine)))"

definition Notice_aggregate_priority :: "notice list \<Rightarrow> (string option \<times> nat) list" where
  "Notice_aggregate_priority mine =
     map (\<lambda>k. (k, length (filter (\<lambda>n. n_priority n = k) mine)))
         (group_keys (map n_priority mine))"

definition Notice_aggregate_monthly :: "notice list \<Rightarrow> ((int \<times> int) \<times> nat) list" where
  "Notice_aggregate_monthly mine =
     sort_key (\<lambda>(k, c). fst k)
       (sort_key (\<lambda>(k, c). snd k)
          (map (\<lambda>k. (k, length (filter (\<lambda>n. year_month (n_createdAt n) = k) mine)))
               (group_keys (map (\<lambda>n. year_month (n_createdAt n)) mine))))"

definition getNoticeStats :: "env \<Rightarrow> world \<Rightarrow> user \<Rightarrow> response \<times> world" where
  "getNoticeStats e w u =
     (case aggregate_fault e of
        Some er \<Rightarrow> (failure 500 er, w)
      | None \<Rightarrow>
          (let mine = filter (\<lambda>n. n_author n = u_id u) (w_notices w)
           in (success 200
                 (StatsBody \<lparr>categoryStats = Notice_aggregate_category mine,
                            priorityStats = Notice_aggregate_priority mine,
                            monthlyStats = Notice_aggregate_monthly mine\<rparr>),
               w)))"

section \<open>The specification's words\<close>

text \<open>
  The target audience as the specification describes it: a user is addressed when it is
  a student and, in each dimension, the notice names no set, or the set contains the
  wildcard, or the set contains the user's value.
\<close>

definition selector_admits :: "jsval \<Rightarrow> jsval \<Rightarrow> bool" where
  "selector_admits sel v =
     (case sel of JArr vs \<Rightarrow> JStr ''All'' \<in> set vs \<or> v \<in> set vs | _ \<Rightarrow> True)"

definition in_audience :: "notice \<Rightarrow> user \<Rightarrow> bool" where
  "in_audience n u =
     (u_role u = ''student'' \<and>
      (case n_targetAudience n of
         None \<Rightarrow> True
       | Some ta \<Rightarrow>
           selector_admits (branches ta) (u_branch u) \<and>
           selector_admits (years ta) (u_year u)))"

text \<open>
  Free-text search as the specification describes it: the term occurs in the text,
  letters compared without case.
\<close>

definition ci_substring :: "string \<Rightarrow> string \<Rightarrow> bool" where
  "ci_substring term text = str_includes (map lower text) (map lower term)"

text \<open>
  The other filters as the specification describes them: every filter that is supplied
  is satisfied.
\<close>

definition matches_filters :: "list_query \<Rightarrow> notice \<Rightarrow> bool" where
  "matches_filters q n =
     ((given (lq_category q) \<longrightarrow> lq_category q = Some (n_category n)) \<and>
      (given (lq_branch q) \<longrightarrow> lq_branch q = n_branch n) \<and>
      (lq_year q \<noteq> None \<longrightarrow> lq_year q = n_year n) \<and>
      (lq_teacher q \<noteq> None \<longrightarrow> lq_teacher q = n_teacher n))"


section \<open>Example data\<close>

text \<open>
  An environment in which no database call fails, the model validates nothing beyond
  title, content and category and stores \<^verbatim>\<open>isPublished\<close> the way a Boolean path casts
  it, and the library and the database reject what the definitions above leave to them.
\<close>

definition quiet_env :: env where
  "quiet_env =
     \<lparr>findById_fault = None, create_fault = None, update_fault = None, remove_fault = None,
      find_fault = None, count_fault = None, aggregate_fault = None, userFind_fault = None,
      insertMany_fault = None,
      create_rest = (\<lambda>b. []), update_rest = (\<lambda>b. []),
      stored_published =
        (\<lambda>v. v \<in> set [JBool True, JStr ''true'', JNum 1, JStr ''1'', JStr ''yes'']),
      short_id = (\<lambda>s. Inl (Msg ''Cast to ObjectId failed'')),
      regex_engine = (\<lambda>p. Inl (Msg ''Regular expression is invalid'')),
      odd_paging = (\<lambda>s l xs. Inl (Msg ''Skip or limit out of range'')),
      pages_beyond = (\<lambda>t l. None),
      now = 1700000000000\<rparr>"


definition mk_user :: "oid \<Rightarrow> string \<Rightarrow> string \<Rightarrow> string \<Rightarrow> string \<Rightarrow> user" where
  "mk_user i name role branch year =
     \<lparr>u_id = i, u_name = name, u_role = role, u_branch = JStr branch, u_year = JStr year\<rparr>"

definition teacher_a :: user where
  "teacher_a = mk_user 1 ''Asha'' ''teacher'' [] []"

definition teacher_b :: user where
  "teacher_b = mk_user 6 ''Bela'' ''teacher'' [] []"

definition admin_c :: user where
  "admin_c = mk_user 5 ''Chen'' ''admin'' [] []"

definition campus :: world where
  "campus =
     \<lparr>w_notices = [], w_notifications = [],
      w_users =
        [teacher_a,
         mk_user 2 ''Dev'' ''student'' ''CSE'' ''1'',
         mk_user 3 ''Esha'' ''student'' ''ECE'' ''2'',
         mk_user 4 ''Femi'' ''student'' ''ME'' ''1'',
         admin_c, teacher_b],
      w_fresh = 100, fanout_log = [], console = []\<rparr>"

text \<open>
  Identifiers as a URL carries them: the first denotes 100, the identifier the campus
  hands out next; the second denotes 7, which no notice has.
\<close>

definition exam_id :: string where
  "exam_id = ''000000000000000000000064''"

definition absent_id :: string where
  "absent_id = ''000000000000000000000007''"

definition exam_body :: notice_body where
  "exam_body =
     \<lparr>b_title = Some ''Exam'',
      b_content = Some ''Midterm exam on Monday'',
      b_category = Some ''Academic'',
      b_targetAudience =
        Some \<lparr>branches = JArr [JStr ''CSE'', JStr ''ECE''], years = JArr [JStr ''All'']\<rparr>,
      b_scheduledFor = JUndefined,
      b_priority = Some ''high'',
      b_attachmentUrl = None,
      b_isPublished = JUndefined\<rparr>"

definition scheduled_body :: notice_body where
  "scheduled_body = exam_body\<lparr>b_scheduledFor := JStr ''2030-01-01T09:00:00Z''\<rparr>"

text \<open>A body that changes nothing but the published flag.\<close>

definition publish_body :: notice_body where
  "publish_body =
     \<lparr>b_title = None, b_content = None, b_category = None, b_targetAudience = None,
      b_scheduledFor = JUndefined, b_priority = None, b_attachmentUrl = None,
      b_isPublished = JBool True\<rparr>"

text \<open>The same as a form sends it when the flag is off: the string \<^verbatim>\<open>false\<close>.\<close>

definition false_string_body :: notice_body where
  "false_string_body = publish_body\<lparr>b_isPublished := JStr ''false''\<rparr>"

text \<open>
  The campus with one stored notice: the exam notice of teacher A, scheduled for later
  and not published.
\<close>

definition scheduled_notice :: notice where
  "scheduled_notice =
     \<lparr>n_id = 100, n_title = ''Exam'', n_content = ''Midterm exam on Monday'',
      n_category = ''Academic'',
      n_targetAudience =
        Some \<lparr>branches = JArr [JStr ''CSE'', JStr ''ECE''], years = JArr [JStr ''All'']\<rparr>,
      n_scheduledFor = JStr ''2030-01-01T09:00:00Z'', n_priority = Some ''high'',
      n_attachmentUrl = None, n_author = 1, n_isPublished = False,
      n_createdAt = 1700000000000, n_updatedAt = None, n_branch = None, n_year = None,
      n_teacher = None, n_views = 0\<rparr>"

definition campus_scheduled :: world where
  "campus_scheduled = campus\<lparr>w_notices := [scheduled_notice], w_fresh := 101\<rparr>"


text \<open>An environment whose user lookup fails, and one whose bulk insert fails at once.\<close>

definition no_users_env :: env where
  "no_users_env = quiet_env\<lparr>userFind_fault := Some (Msg ''connection lost'')\<rparr>"

definition no_insert_env :: env where
  "no_insert_env = quiet_env\<lparr>insertMany_fault := Some (Msg ''write failed'', 0)\<rparr>"

text \<open>Environments whose writes to the Notice collection fail.\<close>

definition no_create_env :: env where
  "no_create_env = quiet_env\<lparr>create_fault := Some (Msg ''connection lost'')\<rparr>"

definition no_update_env :: env where
  "no_update_env = quiet_env\<lparr>update_fault := Some (Msg ''connection lost'')\<rparr>"

text \<open>Environments whose reads fail, one per call.\<close>

definition no_findById_env :: env where
  "no_findById_env = quiet_env\<lparr>findById_fault := Some (Msg ''connection lost'')\<rparr>"

definition no_find_env :: env where
  "no_find_env = quiet_env\<lparr>find_fault := Some (Msg ''connection lost'')\<rparr>"

definition no_count_env :: env where
  "no_count_env = quiet_env\<lparr>count_fault := Some (Msg ''connection lost'')\<rparr>"

definition no_remove_env :: env where
  "no_remove_env = quiet_env\<lparr>remove_fault := Some (Msg ''connection lost'')\<rparr>"

definition no_aggregate_env :: env where
  "no_aggregate_env = quiet_env\<lparr>aggregate_fault := Some (Msg ''connection lost'')\<rparr>"





text \<open>
  A collection of 30 notices created one after the other.  The first 25 are general
  notices of teacher 1 for the second year of CSE; each of the last five differs from
  them in one thing: its category, its branch, its year, its teacher, its text.  The
  request asks for page 3 of the first kind, ten to a page.
\<close>

definition plain_notice :: "nat \<Rightarrow> notice" where
  "plain_notice k =
     \<lparr>n_id = k, n_title = ''Notice'', n_content = ''Text'', n_category = ''General'',
      n_targetAudience = None, n_scheduledFor = JUndefined, n_priority = None,
      n_attachmentUrl = None, n_author = 1, n_isPublished = True, n_createdAt = int k,
      n_updatedAt = None, n_branch = None, n_year = None, n_teacher = None, n_views = 0\<rparr>"



definition any_query :: list_query where
  "any_query =
     \<lparr>lq_category = None, lq_branch = None, lq_year = None, lq_teacher = None,
      lq_search = None, lq_page = None, lq_limit = None\<rparr>"


text \<open>Searches: a plain term with a category, the term alone, and a term with a dot.\<close>

definition exam_query :: list_query where
  "exam_query = any_query\<lparr>lq_search := Some ''EXAM'', lq_category := Some ''Academic''\<rparr>"

definition search_query :: list_query where
  "search_query = any_query\<lparr>lq_search := Some ''EXAM''\<rparr>"

definition dot_query :: list_query where
  "dot_query = any_query\<lparr>lq_search := Some ''x.m''\<rparr>"

text \<open>The scheduled notice, published by its author through an update.\<close>

definition campus_published :: world where
  "campus_published =
     snd (updateNotice quiet_env campus_scheduled teacher_a exam_id publish_body)"

text \<open>A stored notice for two branches and every year, and one for everyone.\<close>

definition exam_notice :: notice where
  "exam_notice =
     (plain_notice 100)
       \<lparr>n_title := ''Exam'',
        n_category := ''Academic'',
        n_priority := Some ''high'',
        n_targetAudience :=
          Some \<lparr>branches = JArr [JStr ''CSE'', JStr ''ECE''], years = JArr [JStr ''All'']\<rparr>\<rparr>"

definition everyone_notice :: notice where
  "everyone_notice =
     exam_notice\<lparr>n_targetAudience := Some \<lparr>branches = JArr [JStr ''All''], years = JNull\<rparr>\<rparr>"

text \<open>Three notices: an exam, a sports day that mentions exams, and a holiday.\<close>

definition board :: world where
  "board =
     campus\<lparr>w_notices :=
       [(plain_notice 0)\<lparr>n_title := ''Exam'', n_content := ''Midterm exam on Monday'',
                         n_category := ''Academic''\<rparr>,
        (plain_notice 1)\<lparr>n_title := ''Sports day'', n_content := ''No exams today'',
                         n_category := ''Event''\<rparr>,
        (plain_notice 2)\<lparr>n_title := ''Holiday'', n_content := ''Campus closed''\<rparr>]\<rparr>"

section \<open>Checks of the model\<close>

lemma parseInt_examples:
  "parseInt ''3'' = JsFinite 3 \<and> parseInt ''  42'' = JsFinite 42 \<and>
   parseInt ''12px'' = JsFinite 12 \<and> parseInt ''-7'' = JsFinite (- 7) \<and>
   parseInt ''0x1F'' = JsFinite 31 \<and> parseInt ''abc'' = JsNaN \<and> parseInt [] = JsNaN"
  by code_simp

lemma parseInt_rounds:
  "parseInt ''9007199254740992'' = JsFinite 9007199254740992 \<and>
   parseInt ''9007199254740993'' = JsFinite 9007199254740992 \<and>
   parseInt ''9007199254740995'' = JsFinite 9007199254740996 \<and>
   parseInt ''-9007199254740993'' = JsFinite (- 9007199254740992) \<and>
   parseInt ''123456789012345678901234567890'' = JsFinite 123456789012345677877719597056"
  by code_simp

lemma to_double_overflow:
  "to_double (2 ^ 1024) = JsInfinity True \<and> to_double (- (2 ^ 1024)) = JsInfinity False \<and>
   to_double (2 ^ 1024 - 2 ^ 970) = JsInfinity True \<and>
   to_double (2 ^ 1024 - 2 ^ 970 - 1) = JsFinite (2 ^ 1024 - 2 ^ 971)"
  by code_simp


lemma castObjectId_examples:
  "castObjectId quiet_env exam_id = Inr 100 \<and> castObjectId quiet_env absent_id = Inr 7 \<and>
   castObjectId quiet_env ''0000000000000000000000fF'' = Inr 255 \<and>
   castObjectId quiet_env ''abc'' = Inl (Msg ''Cast to ObjectId failed for value abc'') \<and>
   castObjectId quiet_env ''not-an-id'' =
     Inl (Msg ''Cast to ObjectId failed for value not-an-id'') \<and>
   castObjectId quiet_env ''00000000000000000000006G'' =
     Inl (Msg ''Cast to ObjectId failed for value 00000000000000000000006G'')"
  by code_simp

lemma year_month_examples:
  "year_month 0 = (1970, 1) \<and> year_month 951782400000 = (2000, 2) \<and>
   year_month 951868800000 = (2000, 3) \<and> year_month 1700000000000 = (2023, 11) \<and>
   year_month 1735689599000 = (2024, 12) \<and> year_month 1735689600000 = (2025, 1)"
  by code_simp

lemma trim_examples:
  "trim ''  Exam '' = ''Exam'' \<and> trim ''   '' = [] \<and> trim ''a b'' = ''a b''"
  by code_simp

lemma admin_may_delete:
  "r_status (fst (deleteNotice quiet_env campus_scheduled admin_c exam_id)) = 200 \<and>
   w_notices (snd (deleteNotice quiet_env campus_scheduled admin_c exam_id)) = []"
  by code_simp


section \<open>Lookup, then ownership\<close>

lemma findById_malformed:
  "castObjectId e rid = Inl er \<Longrightarrow> Notice_findById e w rid = Inl er"
  by (simp add: Notice_findById_def)

lemma findById_failing:
  "castObjectId e rid = Inr i \<Longrightarrow> findById_fault e = Some er \<Longrightarrow>
   Notice_findById e w rid = Inl er"
  by (simp add: Notice_findById_def)

lemma findById_quiet:
  "castObjectId e rid = Inr i \<Longrightarrow> findById_fault e = None \<Longrightarrow>
   Notice_findById e w rid = Inr (find (\<lambda>n. n_id n = i) (w_notices w))"
  by (simp add: Notice_findById_def)

lemma campus_scheduled_notices:
  "map n_id (w_notices campus_scheduled) = [100] \<and>
   map n_author (w_notices campus_scheduled) = [1] \<and>
   map n_isPublished (w_notices campus_scheduled) = [False]"
  by code_simp

lemma campus_scheduled_find_100:
  "\<exists>n. find (\<lambda>n. n_id n = 100) (w_notices campus_scheduled) = Some n \<and> n_author n = 1 \<and>
       \<not> n_isPublished n"
  using campus_scheduled_notices by (cases "w_notices campus_scheduled") auto

lemma campus_scheduled_find_7:
  "find (\<lambda>n. n_id n = 7) (w_notices campus_scheduled) = None"
  using campus_scheduled_notices by (cases "w_notices campus_scheduled") auto

lemma quiet_env_findById: "findById_fault quiet_env = None"
  by (simp add: quiet_env_def)

lemma teacher_b_fields: "u_id teacher_b = 6 \<and> u_role teacher_b = ''teacher''"
  by (simp add: teacher_b_def mk_user_def)

lemma example_ids:
  "castObjectId quiet_env exam_id = Inr 100 \<and> castObjectId quiet_env absent_id = Inr 7 \<and>
   castObjectId no_findById_env exam_id = Inr 100 \<and>
   findById_fault no_findById_env = Some (Msg ''connection lost'') \<and>
   castObjectId quiet_env ''abc'' = Inl (Msg ''Cast to ObjectId failed for value abc'') \<and>
   castObjectId quiet_env ''not-an-id'' =
     Inl (Msg ''Cast to ObjectId failed for value not-an-id'')"
  by code_simp

text \<open>
  C5, as the code has it.  The identifier of an update or a delete is cast and looked up
  before anything else.  When the cast or the lookup throws, the update is answered 400
  and the delete 500; an identifier that is not well formed makes the cast throw.  When
  the lookup answers and no stored notice has the identifier, both are answered 404;
  when it finds a notice and the acting user is neither its author nor an admin, both
  are answered 403.  In every one of these cases the world (notices, notifications and
  everything else) is returned as it was.
\<close>

theorem update_delete_checks_leave_state:
  "(\<forall>er. castObjectId e rid = Inl er \<longrightarrow>
      updateNotice e w u rid b = (failure 400 er, w) \<and>
      deleteNotice e w u rid = (failure 500 er, w)) \<and>
   (\<forall>i er. castObjectId e rid = Inr i \<and> findById_fault e = Some er \<longrightarrow>
      updateNotice e w u rid b = (failure 400 er, w) \<and>
      deleteNotice e w u rid = (failure 500 er, w)) \<and>
   (\<forall>i. castObjectId e rid = Inr i \<and> findById_fault e = None \<and>
        find (\<lambda>n. n_id n = i) (w_notices w) = None \<longrightarrow>
      updateNotice e w u rid b = (failure 404 (Msg ''Notice not found''), w) \<and>
      deleteNotice e w u rid = (failure 404 (Msg ''Notice not found''), w)) \<and>
   (\<forall>i n. castObjectId e rid = Inr i \<and> findById_fault e = None \<and>
          find (\<lambda>n. n_id n = i) (w_notices w) = Some n \<and>
          n_author n \<noteq> u_id u \<and> u_role u \<noteq> ''admin'' \<longrightarrow>
      updateNotice e w u rid b =
        (failure 403 (Msg ''Not authorized to update this notice''), w) \<and>
      deleteNotice e w u rid =
        (failure 403 (Msg ''Not authorized to delete this notice''), w))"
  by (simp add: updateNotice_def deleteNotice_def Notice_findById_def)

text \<open>
  The claim as stated fails: \<^verbatim>\<open>abc\<close> is the identifier of no stored notice, and the
  update is answered 400 and the delete 500, not 404.
\<close>

theorem malformed_id_is_not_404:
  "map n_id (w_notices campus_scheduled) = [100] \<and>
   castObjectId quiet_env ''abc'' = Inl (Msg ''Cast to ObjectId failed for value abc'') \<and>
   r_status (fst (updateNotice quiet_env campus_scheduled teacher_a ''abc'' publish_body))
     = 400 \<and>
   r_status (fst (deleteNotice quiet_env campus_scheduled teacher_a ''abc'')) = 500"
  by code_simp

theorem update_delete_checks_leave_state_witness:
  "castObjectId quiet_env ''abc'' = Inl (Msg ''Cast to ObjectId failed for value abc'') \<and>
   r_status (fst (updateNotice quiet_env campus_scheduled teacher_b ''abc'' publish_body))
     = 400 \<and>
   snd (updateNotice quiet_env campus_scheduled teacher_b ''abc'' publish_body) =
     campus_scheduled \<and>
   r_status (fst (deleteNotice quiet_env campus_scheduled teacher_b ''abc'')) = 500 \<and>
   snd (deleteNotice quiet_env campus_scheduled teacher_b ''abc'') = campus_scheduled \<and>
   castObjectId no_findById_env exam_id = Inr 100 \<and>
   findById_fault no_findById_env = Some (Msg ''connection lost'') \<and>
   r_status (fst (updateNotice no_findById_env campus_scheduled teacher_b exam_id
     publish_body)) = 400 \<and>
   r_status (fst (deleteNotice no_findById_env campus_scheduled teacher_b exam_id)) = 500 \<and>
   castObjectId quiet_env absent_id = Inr 7 \<and> findById_fault quiet_env = None \<and>
   find (\<lambda>n. n_id n = 7) (w_notices campus_scheduled) = None \<and>
   r_status (fst (updateNotice quiet_env campus_scheduled teacher_b absent_id publish_body))
     = 404 \<and>
   snd (updateNotice quiet_env campus_scheduled teacher_b absent_id publish_body) =
     campus_scheduled \<and>
   r_status (fst (deleteNotice quiet_env campus_scheduled teacher_b absent_id)) = 404 \<and>
   snd (deleteNotice quiet_env campus_scheduled teacher_b absent_id) = campus_scheduled \<and>
   castObjectId quiet_env exam_id = Inr 100 \<and>
   (\<exists>n. find (\<lambda>n. n_id n = 100) (w_notices campus_scheduled) = Some n \<and>
        n_author n \<noteq> u_id teacher_b \<and> u_role teacher_b \<noteq> ''admin'') \<and>
   r_status (fst (updateNotice quiet_env campus_scheduled teacher_b exam_id publish_body))
     = 403 \<and>
   snd (updateNotice quiet_env campus_scheduled teacher_b exam_id publish_body) =
     campus_scheduled \<and>
   r_status (fst (deleteNotice quiet_env campus_scheduled teacher_b exam_id)) = 403 \<and>
   snd (deleteNotice quiet_env campus_scheduled teacher_b exam_id) = campus_scheduled"
proof -
  obtain n where n: "find (\<lambda>n. n_id n = 100) (w_notices campus_scheduled) = Some n"
    "n_author n = 1" using campus_scheduled_find_100 by blast
  have other: "n_author n \<noteq> u_id teacher_b \<and> u_role teacher_b \<noteq> ''admin''"
    using n(2) teacher_b_fields by simp
  note malformed =
    update_delete_checks_leave_state [where e = quiet_env and rid = "''abc''"
      and w = campus_scheduled and u = teacher_b and b = publish_body, THEN conjunct1]
  note failing =
    update_delete_checks_leave_state [where e = no_findById_env and rid = exam_id
      and w = campus_scheduled and u = teacher_b and b = publish_body,
      THEN conjunct2, THEN conjunct1]
  note missing =
    update_delete_checks_leave_state [where e = quiet_env and rid = absent_id
      and w = campus_scheduled and u = teacher_b and b = publish_body,
      THEN conjunct2, THEN conjunct2, THEN conjunct1]
  note foreign =
    update_delete_checks_leave_state [where e = quiet_env and rid = exam_id
      and w = campus_scheduled and u = teacher_b and b = publish_body,
      THEN conjunct2, THEN conjunct2, THEN conjunct2]
  show ?thesis
    using malformed failing missing foreign n(1) other campus_scheduled_find_7
      quiet_env_findById example_ids
    by (auto simp: failure_def)
qed

text \<open>
  C10, as the code has it.  When no stored notice has the identifier of an update or a
  delete, the answer is the same whoever the acting user is, and it is never 403:
  existence is checked before ownership.  It is 404 when the identifier is well formed
  and the lookup answers; when the identifier is not well formed the update is answered
  400 and the delete 500.
\<close>

theorem missing_notice_is_404_for_anyone:
  assumes "\<forall>i. castObjectId e rid = Inr i \<longrightarrow>
             find (\<lambda>n. n_id n = i) (w_notices w) = None"
  shows "updateNotice e w u rid b = updateNotice e w u' rid b \<and>
         deleteNotice e w u rid = deleteNotice e w u' rid \<and>
         r_status (fst (updateNotice e w u rid b)) \<noteq> 403 \<and>
         r_status (fst (deleteNotice e w u rid)) \<noteq> 403 \<and>
         (\<forall>i. castObjectId e rid = Inr i \<and> findById_fault e = None \<longrightarrow>
            r_status (fst (updateNotice e w u rid b)) = 404 \<and>
            r_status (fst (deleteNotice e w u rid)) = 404) \<and>
         (\<forall>er. castObjectId e rid = Inl er \<longrightarrow>
            r_status (fst (updateNotice e w u rid b)) = 400 \<and>
            r_status (fst (deleteNotice e w u rid)) = 500)"
proof (cases "castObjectId e rid")
  case (Inl er)
  then show ?thesis
    by (simp add: updateNotice_def deleteNotice_def Notice_findById_def failure_def)
next
  case (Inr i)
  then have "find (\<lambda>n. n_id n = i) (w_notices w) = None"
    using assms by simp
  then show ?thesis
    using Inr
    by (cases "findById_fault e")
       (simp_all add: updateNotice_def deleteNotice_def Notice_findById_def failure_def)
qed

text \<open>
  The claim as stated fails: a teacher who is neither the author nor an admin sends
  \<^verbatim>\<open>not-an-id\<close>, which no stored notice has, and is answered 400 by the update and 500
  by the delete.
\<close>

theorem malformed_id_probe_is_not_404:
  "u_id teacher_b = 6 \<and> u_role teacher_b = ''teacher'' \<and>
   map n_id (w_notices campus_scheduled) = [100] \<and>
   map n_author (w_notices campus_scheduled) = [1] \<and>
   castObjectId quiet_env ''not-an-id'' =
     Inl (Msg ''Cast to ObjectId failed for value not-an-id'') \<and>
   r_status (fst (updateNotice quiet_env campus_scheduled teacher_b ''not-an-id''
     publish_body)) = 400 \<and>
   r_status (fst (deleteNotice quiet_env campus_scheduled teacher_b ''not-an-id'')) = 500"
  by code_simp

theorem missing_notice_is_404_for_anyone_witness:
  "castObjectId quiet_env absent_id = Inr 7 \<and> findById_fault quiet_env = None \<and>
   find (\<lambda>n. n_id n = 7) (w_notices campus_scheduled) = None \<and>
   updateNotice quiet_env campus_scheduled teacher_b absent_id publish_body =
     updateNotice quiet_env campus_scheduled admin_c absent_id publish_body \<and>
   deleteNotice quiet_env campus_scheduled teacher_b absent_id =
     deleteNotice quiet_env campus_scheduled admin_c absent_id \<and>
   r_status (fst (updateNotice quiet_env campus_scheduled teacher_b absent_id publish_body))
     = 404 \<and>
   r_status (fst (deleteNotice quiet_env campus_scheduled teacher_b absent_id)) = 404 \<and>
   castObjectId quiet_env ''not-an-id'' =
     Inl (Msg ''Cast to ObjectId failed for value not-an-id'') \<and>
   updateNotice quiet_env campus_scheduled teacher_b ''not-an-id'' publish_body =
     updateNotice quiet_env campus_scheduled admin_c ''not-an-id'' publish_body \<and>
   deleteNotice quiet_env campus_scheduled teacher_b ''not-an-id'' =
     deleteNotice quiet_env campus_scheduled admin_c ''not-an-id'' \<and>
   r_status (fst (updateNotice quiet_env campus_scheduled teacher_b ''not-an-id''
     publish_body)) = 400 \<and>
   r_status (fst (deleteNotice quiet_env campus_scheduled teacher_b ''not-an-id'')) = 500"
proof -
  have bad: "castObjectId quiet_env ''not-an-id'' =
               Inl (Msg ''Cast to ObjectId failed for value not-an-id'')"
    using example_ids by simp
  have none': "\<forall>i. castObjectId quiet_env ''not-an-id'' = Inr i \<longrightarrow>
                find (\<lambda>n. n_id n = i) (w_notices campus_scheduled) = None"
    by (simp add: bad)
  note t' = missing_notice_is_404_for_anyone [OF none', of teacher_b publish_body admin_c]
  have s400:
    "r_status (fst (updateNotice quiet_env campus_scheduled teacher_b ''not-an-id''
       publish_body)) = 400 \<and>
     r_status (fst (deleteNotice quiet_env campus_scheduled teacher_b ''not-an-id'')) = 500"
    using t' bad by blast
  have none: "\<forall>i. castObjectId quiet_env absent_id = Inr i \<longrightarrow>
                find (\<lambda>n. n_id n = i) (w_notices campus_scheduled) = None"
    using example_ids campus_scheduled_find_7 by simp
  note t = missing_notice_is_404_for_anyone [OF none, of teacher_b publish_body admin_c]
  have ok: "castObjectId quiet_env absent_id = Inr 7 \<and> findById_fault quiet_env = None"
    using example_ids quiet_env_findById by simp
  have s404:
    "r_status (fst (updateNotice quiet_env campus_scheduled teacher_b absent_id
       publish_body)) = 404 \<and>
     r_status (fst (deleteNotice quiet_env campus_scheduled teacher_b absent_id)) = 404"
    using t ok by blast
  show ?thesis
    by (intro conjI ok [THEN conjunct1] ok [THEN conjunct2] campus_scheduled_find_7
        t [THEN conjunct1] t [THEN conjunct2, THEN conjunct1]
        s404 [THEN conjunct1] s404 [THEN conjunct2] bad
        t' [THEN conjunct1] t' [THEN conjunct2, THEN conjunct1]
        s400 [THEN conjunct1] s400 [THEN conjunct2])
qed

section \<open>Fan-out\<close>

lemma createNotifications_keeps:
  "w_notices (createNotifications e w a) = w_notices w \<and>
   w_users (createNotifications e w a) = w_users w \<and>
   w_fresh (createNotifications e w a) = w_fresh w"
  by (simp add: createNotifications_def Let_def Notification_insertMany_def
      split: option.splits sum.splits prod.splits)

lemma createNotifications_log:
  "fanout_log (createNotifications e w a) = fanout_log w @ [map_option n_id a]"
  by (simp add: createNotifications_def Let_def Notification_insertMany_def
      split: option.splits sum.splits prod.splits)

lemma narrow_array:
  "narrow (JArr vs) = Inr (if JStr ''All'' \<in> set vs then None else Some (JArr vs))"
  by (simp add: narrow_def)

lemma narrow_falsy: "\<not> truthy sel \<Longrightarrow> narrow sel = Inr None"
  by (simp add: narrow_def)

lemma narrow_admits:
  assumes "isArray sel \<or> \<not> truthy sel"
  shows "\<exists>qs ok. narrow sel = Inr qs \<and> in_operand qs = Inr ok \<and>
           (\<forall>v. ok v = selector_admits sel v)"
proof (cases sel)
  case (JArr vs)
  then show ?thesis by (auto simp: narrow_array selector_admits_def)
qed (use assms in \<open>auto simp: narrow_falsy selector_admits_def\<close>)

lemma students_found:
  assumes "userFind_fault e = None"
    and "\<forall>ta. n_targetAudience n = Some ta \<longrightarrow>
           (isArray (branches ta) \<or> \<not> truthy (branches ta)) \<and>
           (isArray (years ta) \<or> \<not> truthy (years ta))"
  shows "\<exists>q. recipient_query n = Inr q \<and>
           User_find e w q = Inr (filter (in_audience n) (w_users w))"
proof (cases "n_targetAudience n")
  case None
  have "filter (\<lambda>u. u_role u = ''student'') (w_users w) = filter (in_audience n) (w_users w)"
    using None by (intro filter_cong) (auto simp: in_audience_def)
  then show ?thesis
    using None assms(1) by (simp add: recipient_query_def User_find_def)
next
  case (Some ta)
  obtain qb okb where b: "narrow (branches ta) = Inr qb" "in_operand qb = Inr okb"
    "\<forall>v. okb v = selector_admits (branches ta) v"
    using narrow_admits [of "branches ta"] assms(2) Some by blast
  obtain qy oky where y: "narrow (years ta) = Inr qy" "in_operand qy = Inr oky"
    "\<forall>v. oky v = selector_admits (years ta) v"
    using narrow_admits [of "years ta"] assms(2) Some by blast
  have "filter (\<lambda>u. u_role u = ''student'' \<and> okb (u_branch u) \<and> oky (u_year u)) (w_users w)
        = filter (in_audience n) (w_users w)"
    using b(3) y(3) Some by (intro filter_cong) (auto simp: in_audience_def)
  then show ?thesis
    using Some b y assms(1) by (simp add: recipient_query_def User_find_def)
qed

lemma filter_by_key_distinct:
  "distinct (map f xs) \<Longrightarrow> x \<in> set xs \<Longrightarrow> filter (\<lambda>v. f v = f x) xs = [x]"
proof (induction xs)
  case Nil
  then show ?case by simp
next
  case (Cons a xs)
  show ?case
  proof (cases "a = x")
    case True
    have "f x \<notin> f ` set xs"
      using Cons.prems(1) True by simp
    then have "\<forall>v\<in>set xs. f v \<noteq> f x"
      by (metis imageI)
    then have "filter (\<lambda>v. f v = f x) xs = []"
      by (simp add: filter_empty_conv)
    then show ?thesis using True by simp
  next
    case False
    then have "x \<in> set xs" using Cons.prems(2) by simp
    moreover have "f a \<noteq> f x" using Cons.prems(1) \<open>x \<in> set xs\<close> by auto
    ultimately show ?thesis using Cons by simp
  qed
qed

text \<open>
  C3.  When the user lookup and the bulk insert succeed, and each selector of the target
  audience is an array or absent, the fan-out appends exactly the notifications of the
  students in the audience, one each, in the order of the users: a branch (a year)
  restricts the audience unless its array contains \<^verbatim>\<open>All\<close>.  Each notification has the
  type \<^verbatim>\<open>notice_posted\<close>, the title \<^verbatim>\<open>New Notice\<close>, the notice's title as message, and
  the notice's identifier, category and priority.  With distinct user identifiers, a
  user in the audience receives one notification and any other user none.
\<close>

theorem fanout_one_notification_per_student:
  assumes "userFind_fault e = None" and "insertMany_fault e = None"
    and "\<forall>ta. n_targetAudience n = Some ta \<longrightarrow>
           (isArray (branches ta) \<or> \<not> truthy (branches ta)) \<and>
           (isArray (years ta) \<or> \<not> truthy (years ta))"
  shows "w_notifications (createNotifications e w (Some n)) =
           w_notifications w @
           map (\<lambda>u. \<lparr>nf_recipient = u_id u, nf_type = ''notice_posted'',
                     nf_title = ''New Notice'', nf_message = n_title n,
                     nf_noticeId = n_id n, nf_category = n_category n,
                     nf_priority = n_priority n\<rparr>)
               (filter (in_audience n) (w_users w)) \<and>
         (distinct (map u_id (w_users w)) \<longrightarrow>
            (\<forall>u \<in> set (w_users w).
               length (filter (\<lambda>x. nf_recipient x = u_id u)
                 (drop (length (w_notifications w))
                    (w_notifications (createNotifications e w (Some n))))) =
               (if in_audience n u then 1 else 0)))"
proof -
  let ?mk = "\<lambda>u. \<lparr>nf_recipient = u_id u, nf_type = ''notice_posted'',
                     nf_title = ''New Notice'', nf_message = n_title n,
                     nf_noticeId = n_id n, nf_category = n_category n,
                     nf_priority = n_priority n\<rparr>"
  let ?w0 = "w\<lparr>fanout_log := fanout_log w @ [Some (n_id n)]\<rparr>"
  obtain q where q: "recipient_query n = Inr q"
    "User_find e ?w0 q = Inr (filter (in_audience n) (w_users ?w0))"
    using students_found [OF assms(1,3), of ?w0] by blast
  have mk: "notification_for n = ?mk"
    by (rule ext) (simp add: notification_for_def)
  have new: "w_notifications (createNotifications e w (Some n)) =
               w_notifications w @ map ?mk (filter (in_audience n) (w_users w))"
    using q assms(2) mk
    by (simp add: createNotifications_def Let_def Notification_insertMany_def)
  have cnt: "length (filter (\<lambda>x. nf_recipient x = u_id u)
               (map ?mk (filter (in_audience n) (w_users w)))) =
             (if in_audience n u then 1 else 0)"
    if d: "distinct (map u_id (w_users w))" and u: "u \<in> set (w_users w)" for u
  proof -
    have "filter (\<lambda>x. nf_recipient x = u_id u) (map ?mk (filter (in_audience n) (w_users w)))
          = map ?mk (filter (in_audience n) (filter (\<lambda>v. u_id v = u_id u) (w_users w)))"
      by (simp add: filter_map comp_def conj_commute)
    also have "\<dots> = map ?mk (filter (in_audience n) [u])"
      using filter_by_key_distinct [OF d u] by simp
    finally show ?thesis by simp
  qed
  show ?thesis using new cnt by simp
qed

lemma quiet_env_fanout: "userFind_fault quiet_env = None \<and> insertMany_fault quiet_env = None"
  by (simp add: quiet_env_def)

lemma exam_notice_selectors:
  "\<forall>ta. n_targetAudience exam_notice = Some ta \<longrightarrow>
     (isArray (branches ta) \<or> \<not> truthy (branches ta)) \<and>
     (isArray (years ta) \<or> \<not> truthy (years ta))"
  by (simp add: exam_notice_def plain_notice_def)

lemma everyone_notice_selectors:
  "\<forall>ta. n_targetAudience everyone_notice = Some ta \<longrightarrow>
     (isArray (branches ta) \<or> \<not> truthy (branches ta)) \<and>
     (isArray (years ta) \<or> \<not> truthy (years ta))"
  by (simp add: everyone_notice_def exam_notice_def plain_notice_def)

lemma campus_audiences:
  "filter (in_audience exam_notice) (w_users campus) =
     [mk_user 2 ''Dev'' ''student'' ''CSE'' ''1'', mk_user 3 ''Esha'' ''student'' ''ECE'' ''2''] \<and>
   filter (in_audience everyone_notice) (w_users campus) =
     [mk_user 2 ''Dev'' ''student'' ''CSE'' ''1'', mk_user 3 ''Esha'' ''student'' ''ECE'' ''2'',
      mk_user 4 ''Femi'' ''student'' ''ME'' ''1''] \<and>
   w_notifications campus = []"
  by code_simp

theorem fanout_one_notification_per_student_witness:
  "userFind_fault quiet_env = None \<and> insertMany_fault quiet_env = None \<and>
   n_targetAudience exam_notice =
     Some \<lparr>branches = JArr [JStr ''CSE'', JStr ''ECE''], years = JArr [JStr ''All'']\<rparr> \<and>
   map nf_recipient (w_notifications (createNotifications quiet_env campus (Some exam_notice)))
     = [2, 3] \<and>
   map nf_type (w_notifications (createNotifications quiet_env campus (Some exam_notice)))
     = [''notice_posted'', ''notice_posted''] \<and>
   map nf_message (w_notifications (createNotifications quiet_env campus (Some exam_notice)))
     = [''Exam'', ''Exam''] \<and>
   n_targetAudience everyone_notice = Some \<lparr>branches = JArr [JStr ''All''], years = JNull\<rparr> \<and>
   map nf_recipient
     (w_notifications (createNotifications quiet_env campus (Some everyone_notice)))
     = [2, 3, 4]"
proof -
  note q = quiet_env_fanout [THEN conjunct1] quiet_env_fanout [THEN conjunct2]
  have two: "w_notifications (createNotifications quiet_env campus (Some exam_notice)) =
      map (\<lambda>u. \<lparr>nf_recipient = u_id u, nf_type = ''notice_posted'',
                nf_title = ''New Notice'', nf_message = n_title exam_notice,
                nf_noticeId = n_id exam_notice, nf_category = n_category exam_notice,
                nf_priority = n_priority exam_notice\<rparr>)
        [mk_user 2 ''Dev'' ''student'' ''CSE'' ''1'', mk_user 3 ''Esha'' ''student'' ''ECE'' ''2'']"
    using fanout_one_notification_per_student [OF q exam_notice_selectors, of campus]
      campus_audiences by simp
  have all: "w_notifications (createNotifications quiet_env campus (Some everyone_notice)) =
      map (\<lambda>u. \<lparr>nf_recipient = u_id u, nf_type = ''notice_posted'',
                nf_title = ''New Notice'', nf_message = n_title everyone_notice,
                nf_noticeId = n_id everyone_notice, nf_category = n_category everyone_notice,
                nf_priority = n_priority everyone_notice\<rparr>)
        [mk_user 2 ''Dev'' ''student'' ''CSE'' ''1'', mk_user 3 ''Esha'' ''student'' ''ECE'' ''2'',
         mk_user 4 ''Femi'' ''student'' ''ME'' ''1'']"
    using fanout_one_notification_per_student [OF q everyone_notice_selectors, of campus]
      campus_audiences by simp
  show ?thesis
    unfolding two all
    by (simp add: quiet_env_fanout mk_user_def exam_notice_def everyone_notice_def)
qed

section \<open>Create\<close>

lemma validate_new_fields:
  assumes "validate_new e b = []"
  shows "\<exists>t c k. b_title b = Some t \<and> b_content b = Some c \<and> b_category b = Some k"
  using assms by (auto simp: validate_new_def split: option.splits)

lemma Notice_create_ok:
  assumes "validate_new e b = []" and "create_fault e = None"
  shows "\<exists>n. Notice_create e w b a p =
            Inr (n, w\<lparr>w_notices := w_notices w @ [n], w_fresh := Suc (w_fresh w)\<rparr>) \<and>
          n_id n = w_fresh w \<and> n_isPublished n = p \<and> n_author n = a"
proof -
  obtain t c k where "b_title b = Some t" "b_content b = Some c" "b_category b = Some k"
    using validate_new_fields [OF assms(1)] by blast
  then show ?thesis using assms by (simp add: Notice_create_def Let_def)
qed


lemma createNotice_accepted:
  assumes "\<forall>ta. b_targetAudience b = Some ta \<longrightarrow>
             (truthy (branches ta) \<longrightarrow> isArray (branches ta)) \<and>
             (truthy (years ta) \<longrightarrow> isArray (years ta))"
    and "validate_new e b = []"
    and "create_fault e = None"
  shows "\<exists>n. createNotice e w u b =
           (success 201 (NoticeBody n),
            if \<not> truthy (b_scheduledFor b)
            then createNotifications e
                   (w\<lparr>w_notices := w_notices w @ [n], w_fresh := Suc (w_fresh w)\<rparr>) (Some n)
            else w\<lparr>w_notices := w_notices w @ [n], w_fresh := Suc (w_fresh w)\<rparr>) \<and>
           n_id n = w_fresh w \<and> n_author n = u_id u \<and>
           n_isPublished n = (\<not> truthy (b_scheduledFor b))"
proof -
  obtain n where n:
    "Notice_create e w b (u_id u) (\<not> truthy (b_scheduledFor b)) =
       Inr (n, w\<lparr>w_notices := w_notices w @ [n], w_fresh := Suc (w_fresh w)\<rparr>)"
    "n_id n = w_fresh w" "n_author n = u_id u"
    "n_isPublished n = (\<not> truthy (b_scheduledFor b))"
    using Notice_create_ok [OF assms(2,3)] by blast
  have chk: "\<not> (case b_targetAudience b of None \<Rightarrow> False
               | Some ta \<Rightarrow> truthy (branches ta) \<and> \<not> isArray (branches ta))"
       "\<not> (case b_targetAudience b of None \<Rightarrow> False
               | Some ta \<Rightarrow> truthy (years ta) \<and> \<not> isArray (years ta))"
    using assms(1) by (auto split: option.splits)
  show ?thesis
    using n chk by (intro exI [of _ n]) (simp add: createNotice_def)
qed

text \<open>
  C2.  A creation payload that passes the audience check and the model's validation
  is stored (the database not failing) with \<^verbatim>\<open>isPublished\<close> the negation of
  \<^verbatim>\<open>scheduledFor\<close>, read as a truth value the way the source reads it; the answer is 201
  with the notice.  The fan-out is called, once, exactly when \<^verbatim>\<open>scheduledFor\<close> is
  absent; with a \<^verbatim>\<open>scheduledFor\<close> the notice is unpublished and no notification is
  created.
\<close>

theorem create_publishes_unless_scheduled:
  assumes "\<forall>ta. b_targetAudience b = Some ta \<longrightarrow>
             (truthy (branches ta) \<longrightarrow> isArray (branches ta)) \<and>
             (truthy (years ta) \<longrightarrow> isArray (years ta))"
    and "validate_new e b = []"
    and "create_fault e = None"
  shows "\<exists>n. fst (createNotice e w u b) = success 201 (NoticeBody n) \<and>
           w_notices (snd (createNotice e w u b)) = w_notices w @ [n] \<and>
           n_isPublished n = (\<not> truthy (b_scheduledFor b)) \<and>
           fanout_log (snd (createNotice e w u b)) =
             fanout_log w @ (if truthy (b_scheduledFor b) then [] else [Some (n_id n)]) \<and>
           (truthy (b_scheduledFor b) \<longrightarrow>
              n_isPublished n = False \<and>
              w_notifications (snd (createNotice e w u b)) = w_notifications w)"
proof -
  obtain n where n: "createNotice e w u b =
           (success 201 (NoticeBody n),
            if \<not> truthy (b_scheduledFor b)
            then createNotifications e
                   (w\<lparr>w_notices := w_notices w @ [n], w_fresh := Suc (w_fresh w)\<rparr>) (Some n)
            else w\<lparr>w_notices := w_notices w @ [n], w_fresh := Suc (w_fresh w)\<rparr>)"
    "n_isPublished n = (\<not> truthy (b_scheduledFor b))"
    using createNotice_accepted [OF assms] by blast
  show ?thesis
    using n by (auto simp: createNotifications_keeps createNotifications_log)
qed

lemma exam_bodies_pass:
  "validate_new quiet_env exam_body = [] \<and> validate_new quiet_env scheduled_body = [] \<and>
   create_fault quiet_env = None"
  by code_simp

lemma exam_bodies_audience:
  "(\<forall>ta. b_targetAudience exam_body = Some ta \<longrightarrow>
      (truthy (branches ta) \<longrightarrow> isArray (branches ta)) \<and>
      (truthy (years ta) \<longrightarrow> isArray (years ta))) \<and>
   (\<forall>ta. b_targetAudience scheduled_body = Some ta \<longrightarrow>
      (truthy (branches ta) \<longrightarrow> isArray (branches ta)) \<and>
      (truthy (years ta) \<longrightarrow> isArray (years ta)))"
  by (simp add: exam_body_def scheduled_body_def)

lemma campus_empty:
  "w_notices campus = [] \<and> w_notifications campus = [] \<and> fanout_log campus = [] \<and>
   console campus = [] \<and> w_fresh campus = 100"
  by (simp add: campus_def)

theorem create_publishes_unless_scheduled_witness:
  "validate_new quiet_env scheduled_body = [] \<and> create_fault quiet_env = None \<and>
   truthy (b_scheduledFor scheduled_body) \<and>
   (\<exists>n. fst (createNotice quiet_env campus teacher_a scheduled_body) =
           success 201 (NoticeBody n) \<and>
        w_notices (snd (createNotice quiet_env campus teacher_a scheduled_body)) = [n] \<and>
        \<not> n_isPublished n) \<and>
   fanout_log (snd (createNotice quiet_env campus teacher_a scheduled_body)) = [] \<and>
   w_notifications (snd (createNotice quiet_env campus teacher_a scheduled_body)) = [] \<and>
   validate_new quiet_env exam_body = [] \<and> \<not> truthy (b_scheduledFor exam_body) \<and>
   (\<exists>n. fst (createNotice quiet_env campus teacher_a exam_body) = success 201 (NoticeBody n) \<and>
        w_notices (snd (createNotice quiet_env campus teacher_a exam_body)) = [n] \<and>
        n_isPublished n \<and>
        fanout_log (snd (createNotice quiet_env campus teacher_a exam_body)) = [Some (n_id n)])"
proof -
  have s: "truthy (b_scheduledFor scheduled_body)" "\<not> truthy (b_scheduledFor exam_body)"
    by (simp_all add: scheduled_body_def exam_body_def)
  note later = create_publishes_unless_scheduled [OF exam_bodies_audience [THEN conjunct2]
      exam_bodies_pass [THEN conjunct2, THEN conjunct1]
      exam_bodies_pass [THEN conjunct2, THEN conjunct2], of campus teacher_a]
  note at_once = create_publishes_unless_scheduled [OF exam_bodies_audience [THEN conjunct1]
      exam_bodies_pass [THEN conjunct1]
      exam_bodies_pass [THEN conjunct2, THEN conjunct2], of campus teacher_a]
  show ?thesis
    using later at_once s exam_bodies_pass campus_empty by auto
qed

section \<open>Update\<close>


lemma update_ok:
  assumes "castObjectId e rid = Inr i"
    and "validate_update e b = []" and "update_fault e = None"
  shows "Notice_findByIdAndUpdate e w rid b =
           Inr (map_option (apply_update e b) (find (\<lambda>n. n_id n = i) (w_notices w)),
                w\<lparr>w_notices :=
                     map (\<lambda>n. if n_id n = i then apply_update e b n else n) (w_notices w)\<rparr>)"
  using assms by (simp add: Notice_findByIdAndUpdate_def)



text \<open>
  What \<^verbatim>\<open>updateNotice\<close> does once the notice is found and the user may change it: a
  written update is answered 200, and the fan-out is called when the body's
  \<^verbatim>\<open>isPublished\<close> is truthy and the stored notice was unpublished; an update that is
  not written is answered 400 and changes nothing.
\<close>

lemma updateNotice_accepted:
  assumes "castObjectId e rid = Inr i"
    and "findById_fault e = None"
    and "find (\<lambda>n. n_id n = i) (w_notices w) = Some n"
    and "n_author n = u_id u \<or> u_role u = ''admin''"
    and "validate_update e b = []"
    and "update_fault e = None"
  shows "updateNotice e w u rid b =
           (success 200 (NoticeBody (apply_update e b n)),
            if truthy (b_isPublished b) \<and> \<not> n_isPublished n
            then createNotifications e
                   (w\<lparr>w_notices :=
                        map (\<lambda>n. if n_id n = i then apply_update e b n else n) (w_notices w)\<rparr>)
                   (Some (apply_update e b n))
            else w\<lparr>w_notices :=
                     map (\<lambda>n. if n_id n = i then apply_update e b n else n) (w_notices w)\<rparr>)"
  using assms by (auto simp: updateNotice_def findById_quiet update_ok)


text \<open>
  The test of line 210 is on the value the body carries.  A form sends the string
  \<^verbatim>\<open>false\<close> for a flag that is off; the string is truthy, so the fan-out is called and
  the students are notified of a notice that stays unpublished.  C1 below speaks of
  bodies whose \<^verbatim>\<open>isPublished\<close> is a boolean or absent.
\<close>

lemma false_string_fans_out:
  "b_isPublished false_string_body = JStr ''false'' \<and>
   r_status (fst (updateNotice quiet_env campus_scheduled teacher_a exam_id
     false_string_body)) = 200 \<and>
   map n_isPublished (w_notices (snd (updateNotice quiet_env campus_scheduled teacher_a
     exam_id false_string_body))) = [False] \<and>
   fanout_log (snd (updateNotice quiet_env campus_scheduled teacher_a exam_id
     false_string_body)) = [Some 100] \<and>
   map nf_recipient (w_notifications (snd (updateNotice quiet_env campus_scheduled teacher_a
     exam_id false_string_body))) = [2, 3]"
  by code_simp



lemma campus_published_notices:
  "map n_id (w_notices campus_published) = [100] \<and>
   map n_author (w_notices campus_published) = [1] \<and>
   map n_isPublished (w_notices campus_published) = [True] \<and>
   fanout_log campus_scheduled = [] \<and>
   u_id teacher_a = 1"
  by code_simp


lemma publish_body_passes:
  "validate_update quiet_env publish_body = [] \<and> update_fault quiet_env = None \<and>
   b_isPublished publish_body = JBool True"
  by code_simp



section \<open>Failures of the fan-out\<close>

lemma faults_keep_cast:
  "castObjectId (e\<lparr>userFind_fault := uf, insertMany_fault := im\<rparr>) rid = castObjectId e rid"
  by (simp add: castObjectId_def)

text \<open>
  C4.  Whatever the user lookup and the bulk insert do (\<open>uf\<close> and \<open>im\<close> are any faults,
  or none), a creation that passes validation and is written is answered with 201 and
  the notice is in the collection; an update by the author or an admin that passes
  validation and is written is answered with 200 and the collection holds the updated
  notice.  Nothing thrown inside \<^verbatim>\<open>createNotifications\<close> reaches the handler.
\<close>

theorem fanout_failure_is_contained:
  "((\<forall>ta. b_targetAudience b = Some ta \<longrightarrow>
       (truthy (branches ta) \<longrightarrow> isArray (branches ta)) \<and>
       (truthy (years ta) \<longrightarrow> isArray (years ta))) \<and>
    validate_new e b = [] \<and> create_fault e = None \<longrightarrow>
    (\<exists>n. fst (createNotice (e\<lparr>userFind_fault := uf, insertMany_fault := im\<rparr>) w u b) =
            success 201 (NoticeBody n) \<and>
          w_notices (snd (createNotice (e\<lparr>userFind_fault := uf, insertMany_fault := im\<rparr>)
            w u b)) = w_notices w @ [n])) \<and>
   (castObjectId e rid = Inr i \<and>
    findById_fault e = None \<and> find (\<lambda>n. n_id n = i) (w_notices w) = Some m \<and>
    (n_author m = u_id u \<or> u_role u = ''admin'') \<and>
    validate_update e b = [] \<and> update_fault e = None \<longrightarrow>
    fst (updateNotice (e\<lparr>userFind_fault := uf, insertMany_fault := im\<rparr>) w u rid b) =
      success 200 (NoticeBody (apply_update e b m)) \<and>
    w_notices (snd (updateNotice (e\<lparr>userFind_fault := uf, insertMany_fault := im\<rparr>)
      w u rid b)) =
      map (\<lambda>n. if n_id n = i then apply_update e b n else n) (w_notices w))"
proof (intro conjI impI)
  let ?e = "e\<lparr>userFind_fault := uf, insertMany_fault := im\<rparr>"
  assume a: "(\<forall>ta. b_targetAudience b = Some ta \<longrightarrow>
             (truthy (branches ta) \<longrightarrow> isArray (branches ta)) \<and>
             (truthy (years ta) \<longrightarrow> isArray (years ta))) \<and>
          validate_new e b = [] \<and> create_fault e = None"
  have v: "validate_new ?e b = []" "create_fault ?e = None"
    using a by (simp_all add: validate_new_def)
  obtain n where n: "createNotice ?e w u b =
           (success 201 (NoticeBody n),
            if \<not> truthy (b_scheduledFor b)
            then createNotifications ?e
                   (w\<lparr>w_notices := w_notices w @ [n], w_fresh := Suc (w_fresh w)\<rparr>) (Some n)
            else w\<lparr>w_notices := w_notices w @ [n], w_fresh := Suc (w_fresh w)\<rparr>)"
    using createNotice_accepted [OF _ v, of w u] a by blast
  show "\<exists>n. fst (createNotice ?e w u b) = success 201 (NoticeBody n) \<and>
            w_notices (snd (createNotice ?e w u b)) = w_notices w @ [n]"
    using n by (intro exI [of _ n]) (simp add: createNotifications_keeps)
next
  let ?e = "e\<lparr>userFind_fault := uf, insertMany_fault := im\<rparr>"
  assume a: "castObjectId e rid = Inr i \<and>
          findById_fault e = None \<and> find (\<lambda>n. n_id n = i) (w_notices w) = Some m \<and>
          (n_author m = u_id u \<or> u_role u = ''admin'') \<and>
          validate_update e b = [] \<and> update_fault e = None"
  have v: "castObjectId ?e rid = Inr i"
    "findById_fault ?e = None" "find (\<lambda>n. n_id n = i) (w_notices w) = Some m"
    "n_author m = u_id u \<or> u_role u = ''admin''"
    "validate_update ?e b = []" "update_fault ?e = None"
    using a by (simp_all add: validate_update_def faults_keep_cast)
  have ap: "apply_update ?e b = apply_update e b"
    by (rule ext) (simp add: apply_update_def)
  show "fst (updateNotice ?e w u rid b) = success 200 (NoticeBody (apply_update e b m))"
    by (simp add: updateNotice_accepted [OF v] ap)
  show "w_notices (snd (updateNotice ?e w u rid b)) =
            map (\<lambda>n. if n_id n = i then apply_update e b n else n) (w_notices w)"
    by (simp add: updateNotice_accepted [OF v] ap createNotifications_keeps)
qed

lemma faulty_envs:
  "quiet_env\<lparr>userFind_fault := Some (Msg ''connection lost''), insertMany_fault := None\<rparr>
     = no_users_env \<and>
   quiet_env\<lparr>userFind_fault := None, insertMany_fault := Some (Msg ''write failed'', 0)\<rparr>
     = no_insert_env"
  by (simp add: no_users_env_def no_insert_env_def quiet_env_def)

lemma faulty_fanout_runs:
  "w_notifications (snd (createNotice no_users_env campus teacher_a exam_body)) = [] \<and>
   console (snd (createNotice no_users_env campus teacher_a exam_body)) =
     [Msg ''connection lost''] \<and>
   fanout_log (snd (createNotice no_users_env campus teacher_a exam_body)) = [Some 100] \<and>
   w_notifications (snd (updateNotice no_insert_env campus_scheduled teacher_a exam_id
     publish_body)) = [] \<and>
   console (snd (updateNotice no_insert_env campus_scheduled teacher_a exam_id publish_body)) =
     [Msg ''write failed''] \<and>
   fanout_log (snd (updateNotice no_insert_env campus_scheduled teacher_a exam_id publish_body)) =
     [Some 100]"
  by code_simp

theorem fanout_failure_is_contained_witness:
  "validate_new quiet_env exam_body = [] \<and> create_fault quiet_env = None \<and>
   userFind_fault no_users_env = Some (Msg ''connection lost'') \<and>
   r_status (fst (createNotice no_users_env campus teacher_a exam_body)) = 201 \<and>
   r_success (fst (createNotice no_users_env campus teacher_a exam_body)) \<and>
   length (w_notices (snd (createNotice no_users_env campus teacher_a exam_body))) = 1 \<and>
   console (snd (createNotice no_users_env campus teacher_a exam_body)) =
     [Msg ''connection lost''] \<and>
   findById_fault quiet_env = None \<and> validate_update quiet_env publish_body = [] \<and>
   update_fault quiet_env = None \<and>
   insertMany_fault no_insert_env = Some (Msg ''write failed'', 0) \<and>
   r_status (fst (updateNotice no_insert_env campus_scheduled teacher_a exam_id publish_body))
     = 200 \<and>
   r_success (fst (updateNotice no_insert_env campus_scheduled teacher_a exam_id publish_body)) \<and>
   map n_isPublished
     (w_notices (snd (updateNotice no_insert_env campus_scheduled teacher_a exam_id publish_body)))
     = [True] \<and>
   console (snd (updateNotice no_insert_env campus_scheduled teacher_a exam_id publish_body)) =
     [Msg ''write failed'']"
proof -
  obtain n where n: "find (\<lambda>n. n_id n = 100) (w_notices campus_scheduled) = Some n"
    "n_author n = 1" "\<not> n_isPublished n"
    using campus_scheduled_find_100 by blast
  have a: "u_id teacher_a = 1" using campus_published_notices by simp
  have own: "n_author n = u_id teacher_a \<or> u_role teacher_a = ''admin''"
    using n(2) a by simp
  note create =
    fanout_failure_is_contained [where b = exam_body and e = quiet_env
      and uf = "Some (Msg ''connection lost'')" and im = None and w = campus
      and u = teacher_a, THEN conjunct1, unfolded faulty_envs [THEN conjunct1]]
  note update =
    fanout_failure_is_contained [where b = publish_body and e = quiet_env and uf = None
      and im = "Some (Msg ''write failed'', 0)" and w = campus_scheduled and u = teacher_a
      and rid = exam_id and i = 100 and m = n, THEN conjunct2,
      unfolded faulty_envs [THEN conjunct2]]
  have c: "\<exists>n. fst (createNotice no_users_env campus teacher_a exam_body) =
                success 201 (NoticeBody n) \<and>
              w_notices (snd (createNotice no_users_env campus teacher_a exam_body)) =
                w_notices campus @ [n]"
    using create exam_bodies_audience exam_bodies_pass by blast
  have u: "fst (updateNotice no_insert_env campus_scheduled teacher_a exam_id publish_body) =
             success 200 (NoticeBody (apply_update quiet_env publish_body n)) \<and>
           w_notices (snd (updateNotice no_insert_env campus_scheduled teacher_a exam_id
             publish_body)) =
             map (\<lambda>n. if n_id n = 100 then apply_update quiet_env publish_body n else n)
               (w_notices campus_scheduled)"
    using update quiet_env_findById n(1) own publish_body_passes example_ids by blast
  have pub: "map n_isPublished
      (map (\<lambda>n. if n_id n = 100 then apply_update quiet_env publish_body n else n)
         (w_notices campus_scheduled)) = [True]"
    using campus_scheduled_notices publish_body_passes
    by (cases "w_notices campus_scheduled") (auto simp: apply_update_def quiet_env_def)
  have f: "userFind_fault no_users_env = Some (Msg ''connection lost'') \<and>
           insertMany_fault no_insert_env = Some (Msg ''write failed'', 0)"
    by (simp add: no_users_env_def no_insert_env_def)
  show ?thesis
    using c u pub f faulty_fanout_runs exam_bodies_pass publish_body_passes quiet_env_findById
      campus_empty
    by (auto simp: success_def)
qed

section \<open>Rejected creations\<close>








section \<open>Persistence failures\<close>

text \<open>
  C9, as the code has it.  A thrown database error is answered with 500 by
  \<^verbatim>\<open>getNotices\<close>, \<^verbatim>\<open>getNotice\<close>, \<^verbatim>\<open>deleteNotice\<close> and \<^verbatim>\<open>getNoticeStats\<close>, and with 400
  by \<^verbatim>\<open>createNotice\<close> and \<^verbatim>\<open>updateNotice\<close>, whose handlers answer 400 to whatever they
  catch.  The world is returned as it was.  The answer carries the error of the database
  when the identifier of the request is one the model can cast; when the lookup fails,
  the status and the unchanged world are the same for every identifier.
\<close>

theorem persistence_failure_status:
  "(findById_fault e = Some er \<longrightarrow>
      (castObjectId e rid = Inr i \<longrightarrow>
         getNotice e w rid = (failure 500 er, w) \<and>
         deleteNotice e w u rid = (failure 500 er, w) \<and>
         updateNotice e w u rid b = (failure 400 er, w)) \<and>
      r_status (fst (getNotice e w rid)) = 500 \<and> snd (getNotice e w rid) = w \<and>
      r_status (fst (deleteNotice e w u rid)) = 500 \<and> snd (deleteNotice e w u rid) = w \<and>
      r_status (fst (updateNotice e w u rid b)) = 400 \<and>
      snd (updateNotice e w u rid b) = w) \<and>
   (find_fault e = Some er \<longrightarrow> getNotices e w q = (failure 500 er, w)) \<and>
   (count_fault e = Some er \<longrightarrow>
      r_status (fst (getNotices e w q)) = 500 \<and> snd (getNotices e w q) = w) \<and>
   (aggregate_fault e = Some er \<longrightarrow> getNoticeStats e w u = (failure 500 er, w)) \<and>
   (castObjectId e rid = Inr i \<and> findById_fault e = None \<and>
    find (\<lambda>n. n_id n = i) (w_notices w) = Some n \<and>
    (n_author n = u_id u \<or> u_role u = ''admin'') \<and> remove_fault e = Some er \<longrightarrow>
      deleteNotice e w u rid = (failure 500 er, w)) \<and>
   ((\<forall>ta. b_targetAudience b = Some ta \<longrightarrow>
       (truthy (branches ta) \<longrightarrow> isArray (branches ta)) \<and>
       (truthy (years ta) \<longrightarrow> isArray (years ta))) \<and>
    validate_new e b = [] \<and> create_fault e = Some er \<longrightarrow>
      createNotice e w u b = (failure 400 er, w)) \<and>
   (castObjectId e rid = Inr i \<and> findById_fault e = None \<and>
    find (\<lambda>n. n_id n = i) (w_notices w) = Some n \<and>
    (n_author n = u_id u \<or> u_role u = ''admin'') \<and>
    validate_update e b = [] \<and> update_fault e = Some er \<longrightarrow>
      updateNotice e w u rid b = (failure 400 er, w))"
proof -
  have lookup: "(castObjectId e rid = Inr i \<longrightarrow>
         getNotice e w rid = (failure 500 er, w) \<and>
         deleteNotice e w u rid = (failure 500 er, w) \<and>
         updateNotice e w u rid b = (failure 400 er, w)) \<and>
      r_status (fst (getNotice e w rid)) = 500 \<and> snd (getNotice e w rid) = w \<and>
      r_status (fst (deleteNotice e w u rid)) = 500 \<and> snd (deleteNotice e w u rid) = w \<and>
      r_status (fst (updateNotice e w u rid b)) = 400 \<and>
      snd (updateNotice e w u rid b) = w"
    if f: "findById_fault e = Some er"
  proof -
    have "\<exists>er'. Notice_findById e w rid = Inl er'"
      using f by (simp add: Notice_findById_def split: sum.splits)
    then obtain er' where l: "Notice_findById e w rid = Inl er'" ..
    have exact: "Notice_findById e w rid = Inl er" if "castObjectId e rid = Inr i"
      using that f by (rule findById_failing)
    show ?thesis
      using l exact
      by (simp add: getNotice_def deleteNotice_def updateNotice_def failure_def)
  qed
  have list: "getNotices e w q = (failure 500 er, w)" if "find_fault e = Some er"
    using that by (simp add: getNotices_def Notice_find_def Let_def)
  have count: "r_status (fst (getNotices e w q)) = 500 \<and> snd (getNotices e w q) = w"
    if c: "count_fault e = Some er"
  proof
    show "r_status (fst (getNotices e w q)) = 500"
      using c by (simp add: getNotices_def Notice_countDocuments_def Let_def failure_def
          split: sum.splits)
    show "snd (getNotices e w q) = w"
      using c by (simp add: getNotices_def Notice_countDocuments_def Let_def
          split: sum.splits)
  qed
  have stats: "getNoticeStats e w u = (failure 500 er, w)" if "aggregate_fault e = Some er"
    using that by (simp add: getNoticeStats_def)
  have remove: "deleteNotice e w u rid = (failure 500 er, w)"
    if "castObjectId e rid = Inr i \<and> findById_fault e = None \<and>
        find (\<lambda>n. n_id n = i) (w_notices w) = Some n \<and>
        (n_author n = u_id u \<or> u_role u = ''admin'') \<and> remove_fault e = Some er"
    using that by (auto simp: deleteNotice_def findById_quiet Notice_remove_def)
  have create: "createNotice e w u b = (failure 400 er, w)"
    if a: "(\<forall>ta. b_targetAudience b = Some ta \<longrightarrow>
       (truthy (branches ta) \<longrightarrow> isArray (branches ta)) \<and>
       (truthy (years ta) \<longrightarrow> isArray (years ta))) \<and>
      validate_new e b = [] \<and> create_fault e = Some er"
  proof -
    from a obtain t c k where f: "b_title b = Some t" "b_content b = Some c"
      "b_category b = Some k"
      using validate_new_fields by blast
    have chk: "\<not> (case b_targetAudience b of None \<Rightarrow> False
                 | Some ta \<Rightarrow> truthy (branches ta) \<and> \<not> isArray (branches ta))"
         "\<not> (case b_targetAudience b of None \<Rightarrow> False
                 | Some ta \<Rightarrow> truthy (years ta) \<and> \<not> isArray (years ta))"
      using a by (auto split: option.splits)
    show ?thesis
      using a f chk by (simp add: createNotice_def Notice_create_def)
  qed
  have update: "updateNotice e w u rid b = (failure 400 er, w)"
    if "castObjectId e rid = Inr i \<and> findById_fault e = None \<and>
        find (\<lambda>n. n_id n = i) (w_notices w) = Some n \<and>
        (n_author n = u_id u \<or> u_role u = ''admin'') \<and>
        validate_update e b = [] \<and> update_fault e = Some er"
    using that by (auto simp: updateNotice_def findById_quiet Notice_findByIdAndUpdate_def)
  from lookup list count stats remove create update show ?thesis by blast
qed

text \<open>
  The claim as stated fails for two of the six operations: a database failure while a
  valid notice is created, or while a valid update is written, is answered with 400.
\<close>

theorem write_failure_is_answered_400:
  "validate_new no_create_env exam_body = [] \<and>
   create_fault no_create_env = Some (Msg ''connection lost'') \<and>
   fst (createNotice no_create_env campus teacher_a exam_body) =
     failure 400 (Msg ''connection lost'') \<and>
   r_status (fst (createNotice no_create_env campus teacher_a exam_body)) = 400 \<and>
   validate_update no_update_env publish_body = [] \<and>
   update_fault no_update_env = Some (Msg ''connection lost'') \<and>
   fst (updateNotice no_update_env campus_scheduled teacher_a exam_id publish_body) =
     failure 400 (Msg ''connection lost'') \<and>
   r_status (fst (updateNotice no_update_env campus_scheduled teacher_a exam_id publish_body))
     = 400"
  by code_simp

lemma faults_set:
  "findById_fault no_findById_env = Some (Msg ''connection lost'') \<and>
   find_fault no_find_env = Some (Msg ''connection lost'') \<and>
   count_fault no_count_env = Some (Msg ''connection lost'') \<and>
   aggregate_fault no_aggregate_env = Some (Msg ''connection lost'') \<and>
   remove_fault no_remove_env = Some (Msg ''connection lost'') \<and>
   findById_fault no_remove_env = None \<and>
   create_fault no_create_env = Some (Msg ''connection lost'') \<and>
   validate_new no_create_env exam_body = [] \<and>
   update_fault no_update_env = Some (Msg ''connection lost'') \<and>
   findById_fault no_update_env = None \<and>
   validate_update no_update_env publish_body = [] \<and>
   castObjectId no_findById_env exam_id = Inr 100 \<and>
   castObjectId no_remove_env exam_id = Inr 100 \<and>
   castObjectId no_update_env exam_id = Inr 100"
  by code_simp

theorem persistence_failure_status_witness:
  "findById_fault no_findById_env = Some (Msg ''connection lost'') \<and>
   castObjectId no_findById_env exam_id = Inr 100 \<and>
   fst (getNotice no_findById_env campus_scheduled exam_id) =
     failure 500 (Msg ''connection lost'') \<and>
   r_status (fst (getNotice no_findById_env campus_scheduled ''abc'')) = 500 \<and>
   r_status (fst (updateNotice no_findById_env campus_scheduled teacher_a ''abc''
     publish_body)) = 400 \<and>
   r_status (fst (getNotice no_findById_env campus_scheduled exam_id)) = 500 \<and>
   r_status (fst (deleteNotice no_findById_env campus_scheduled teacher_a exam_id)) = 500 \<and>
   r_status (fst (updateNotice no_findById_env campus_scheduled teacher_a exam_id publish_body))
     = 400 \<and>
   find_fault no_find_env = Some (Msg ''connection lost'') \<and>
   r_status (fst (getNotices no_find_env campus_scheduled any_query)) = 500 \<and>
   count_fault no_count_env = Some (Msg ''connection lost'') \<and>
   r_status (fst (getNotices no_count_env campus_scheduled any_query)) = 500 \<and>
   aggregate_fault no_aggregate_env = Some (Msg ''connection lost'') \<and>
   r_status (fst (getNoticeStats no_aggregate_env campus_scheduled teacher_a)) = 500 \<and>
   remove_fault no_remove_env = Some (Msg ''connection lost'') \<and>
   r_status (fst (deleteNotice no_remove_env campus_scheduled teacher_a exam_id)) = 500 \<and>
   snd (deleteNotice no_remove_env campus_scheduled teacher_a exam_id) = campus_scheduled \<and>
   create_fault no_create_env = Some (Msg ''connection lost'') \<and>
   r_status (fst (createNotice no_create_env campus teacher_a exam_body)) = 400 \<and>
   snd (createNotice no_create_env campus teacher_a exam_body) = campus \<and>
   update_fault no_update_env = Some (Msg ''connection lost'') \<and>
   r_status (fst (updateNotice no_update_env campus_scheduled teacher_a exam_id publish_body))
     = 400 \<and>
   snd (updateNotice no_update_env campus_scheduled teacher_a exam_id publish_body) =
     campus_scheduled"
proof -
  let ?er = "Msg ''connection lost''"
  obtain n where n: "find (\<lambda>n. n_id n = 100) (w_notices campus_scheduled) = Some n"
    "n_author n = 1"
    using campus_scheduled_find_100 by blast
  have own: "n_author n = u_id teacher_a \<or> u_role teacher_a = ''admin''"
    using n(2) campus_published_notices by simp
  note lookup = persistence_failure_status [where e = no_findById_env and er = ?er
      and w = campus_scheduled and rid = exam_id and i = 100 and u = teacher_a and b = publish_body,
      THEN conjunct1]
  note lookup_any = persistence_failure_status [where e = no_findById_env and er = ?er
      and w = campus_scheduled and rid = "''abc''" and u = teacher_a and b = publish_body,
      THEN conjunct1]
  note list = persistence_failure_status [where e = no_find_env and er = ?er
      and w = campus_scheduled and q = any_query, THEN conjunct2, THEN conjunct1]
  note count = persistence_failure_status [where e = no_count_env and er = ?er
      and w = campus_scheduled and q = any_query, THEN conjunct2, THEN conjunct2,
      THEN conjunct1]
  note stats = persistence_failure_status [where e = no_aggregate_env and er = ?er
      and w = campus_scheduled and u = teacher_a, THEN conjunct2, THEN conjunct2,
      THEN conjunct2, THEN conjunct1]
  note remove = persistence_failure_status [where e = no_remove_env and er = ?er
      and w = campus_scheduled and rid = exam_id and i = 100 and u = teacher_a and n = n, THEN conjunct2,
      THEN conjunct2, THEN conjunct2, THEN conjunct2, THEN conjunct1]
  note create = persistence_failure_status [where e = no_create_env and er = ?er
      and w = campus and u = teacher_a and b = exam_body, THEN conjunct2, THEN conjunct2,
      THEN conjunct2, THEN conjunct2, THEN conjunct2, THEN conjunct1]
  note update = persistence_failure_status [where e = no_update_env and er = ?er
      and w = campus_scheduled and rid = exam_id and i = 100 and u = teacher_a and n = n
      and b = publish_body, THEN conjunct2, THEN conjunct2, THEN conjunct2, THEN conjunct2,
      THEN conjunct2, THEN conjunct2]
  show ?thesis
    using lookup lookup_any list count stats remove create update n(1) own faults_set
      exam_bodies_audience
    by (simp add: failure_def)
qed

section \<open>Search\<close>

lemma match_here_plain:
  "\<forall>c\<in>set p. c \<noteq> CHR ''.'' \<Longrightarrow>
   match_here p s = startsWith (map lower s) (map lower p)"
proof (induction p s rule: match_here.induct)
  case (1 s)
  show ?case by simp
next
  case (2 p ps)
  show ?case by simp
next
  case (3 p ps c cs)
  have nd: "p \<noteq> CHR ''.''" using "3.prems" by simp
  have ih: "match_here ps cs = startsWith (map lower cs) (map lower ps)"
    using "3.IH" "3.prems" by simp
  have "char_match p c = (lower c = lower p)"
    unfolding char_match_def using nd by (simp only: if_False) (rule eq_commute)
  then show ?case using ih by simp
qed

lemma match_anywhere_plain:
  assumes "\<forall>c\<in>set p. c \<noteq> CHR ''.''"
  shows "match_anywhere p s = ci_substring p s"
proof (induction s)
  case Nil
  show ?case by (cases p) (simp_all add: ci_substring_def)
next
  case (Cons c cs)
  then show ?case
    using match_here_plain [OF assms, of "c # cs"] by (simp add: ci_substring_def)
qed

lemma regex_i_plain:
  assumes "\<forall>c\<in>set p. c \<noteq> CHR ''.'' \<and> c \<notin> set regex_operators"
  shows "regex_i e p = Inr (ci_substring p)"
proof -
  have "list_all (\<lambda>c. c \<notin> set regex_operators) p"
    using assms by (simp add: list_all_iff)
  moreover have "match_anywhere p = ci_substring p"
    using assms by (intro ext match_anywhere_plain) simp
  ultimately show ?thesis by (simp add: regex_i_def)
qed

lemma filter_given:
  "(case (if given c then c else None) of None \<Rightarrow> True | Some x \<Rightarrow> k = x) =
   (given c \<longrightarrow> c = Some k)"
  by (cases c) (auto simp: given_def)

lemma filter_given_opt:
  "(case (if given c then c else None) of None \<Rightarrow> True | Some x \<Rightarrow> f = Some x) =
   (given c \<longrightarrow> c = f)"
  by (cases c) (auto simp: given_def)

lemma filter_opt:
  "(case y of None \<Rightarrow> True | Some v \<Rightarrow> f = Some v) = (y \<noteq> None \<longrightarrow> y = f)"
  by (cases y) auto


lemma getNotices_total:
  assumes "Notice_matching e w (build_query q) = Inr ms"
    and "r_status (fst (getNotices e w q)) = 200"
  shows "\<exists>r. r_body (fst (getNotices e w q)) = ListBody r \<and> l_total r = length ms"
proof -
  define page where
    "page = (case lq_page q of None \<Rightarrow> JsFinite 1 | Some s \<Rightarrow> parseInt s)"
  define lmt where
    "lmt = (case lq_limit q of None \<Rightarrow> JsFinite 10 | Some s \<Rightarrow> parseInt s)"
  define skip where "skip = js_times (js_minus_one page) lmt"
  have g: "getNotices e w q =
     (case Notice_find e w (build_query q) skip lmt of
           Inl er \<Rightarrow> (failure 500 er, w)
         | Inr found \<Rightarrow>
             (case Notice_countDocuments e w (build_query q) of
                Inl er \<Rightarrow> (failure 500 er, w)
              | Inr tot \<Rightarrow>
                  (success 200
                     (ListBody \<lparr>l_count = length found,
                               l_total = tot,
                               l_totalPages = ceil_div e tot lmt,
                               l_page = json_number page,
                               l_data = map (populate w) found\<rparr>),
                   w)))"
    unfolding getNotices_def Let_def page_def lmt_def skip_def ..
  show ?thesis
  proof (cases "Notice_find e w (build_query q) skip lmt")
    case (Inl er)
    then show ?thesis using assms(2) g by (simp add: failure_def)
  next
    case (Inr found)
    show ?thesis
    proof (cases "count_fault e")
      case None
      then have "Notice_countDocuments e w (build_query q) = Inr (length ms)"
        using assms(1) by (simp add: Notice_countDocuments_def)
      then show ?thesis using g Inr by (simp add: success_def)
    next
      case (Some er)
      then have "Notice_countDocuments e w (build_query q) = Inl er"
        by (simp add: Notice_countDocuments_def)
      then show ?thesis using assms(2) g Inr by (simp add: failure_def)
    qed
  qed
qed

text \<open>
  C8, as the code has it.  For a search term without a dot and without any other
  regular-expression operator, the notices a listing selects are exactly those that
  satisfy every supplied filter (category, branch, year, teacher) and whose title or
  content contains the term, letters compared without case; an answer with status 200
  reports their number as \<^verbatim>\<open>total\<close>.
\<close>

theorem search_plain_term:
  assumes "lq_search q = Some p" and "p \<noteq> []"
    and "\<forall>c\<in>set p. c \<noteq> CHR ''.'' \<and> c \<notin> set regex_operators"
  shows "Notice_matching e w (build_query q) =
           Inr (filter (\<lambda>n. matches_filters q n \<and>
                            (ci_substring p (n_title n) \<or> ci_substring p (n_content n)))
                  (w_notices w)) \<and>
         (r_status (fst (getNotices e w q)) = 200 \<longrightarrow>
            (\<exists>r. r_body (fst (getNotices e w q)) = ListBody r \<and>
                 l_total r =
                   length (filter (\<lambda>n. matches_filters q n \<and>
                            (ci_substring p (n_title n) \<or> ci_substring p (n_content n)))
                     (w_notices w))))"
proof -
  have g: "given (lq_search q)" using assms(1,2) by (simp add: given_def)
  have m: "Notice_matching e w (build_query q) =
             Inr (filter (\<lambda>n. matches_filters q n \<and>
                            (ci_substring p (n_title n) \<or> ci_substring p (n_content n)))
                  (w_notices w))"
  proof -
    have nq: "nq_regex (build_query q) = Some p"
      "nq_category (build_query q) = (if given (lq_category q) then lq_category q else None)"
      "nq_branch (build_query q) = (if given (lq_branch q) then lq_branch q else None)"
      "nq_year (build_query q) = lq_year q"
      "nq_teacher (build_query q) = lq_teacher q"
      using assms(1) g by (simp_all add: build_query_def)
    show ?thesis
      unfolding Notice_matching_def nq matches_filters_def
      apply (simp only: regex_i_plain [OF assms(3)] option.case sum.case)
      apply (simp only: filter_given filter_given_opt)
      apply (simp only: filter_opt conj_assoc)
      done
  qed
  from getNotices_total [OF m] have
    "r_status (fst (getNotices e w q)) = 200 \<longrightarrow>
       (\<exists>r. r_body (fst (getNotices e w q)) = ListBody r \<and>
            l_total r =
              length (filter (\<lambda>n. matches_filters q n \<and>
                       (ci_substring p (n_title n) \<or> ci_substring p (n_content n)))
                (w_notices w)))"
    by (rule impI)
  with m show ?thesis by (rule conjI)
qed


text \<open>
  The claim as stated fails: the term is a regular expression.  The term \<^verbatim>\<open>x.m\<close> occurs
  in no title and in no content of the board, and the listing returns two notices, whose
  texts contain \<^verbatim>\<open>xam\<close>.
\<close>

theorem search_term_is_a_pattern:
  "lq_search dot_query = Some ''x.m'' \<and>
   map n_title (w_notices board) = [''Exam'', ''Sports day'', ''Holiday''] \<and>
   map n_content (w_notices board) =
     [''Midterm exam on Monday'', ''No exams today'', ''Campus closed''] \<and>
   filter (\<lambda>n. ci_substring ''x.m'' (n_title n) \<or> ci_substring ''x.m'' (n_content n))
     (w_notices board) = [] \<and>
   r_status (fst (getNotices quiet_env board dot_query)) = 200 \<and>
   (case r_body (fst (getNotices quiet_env board dot_query)) of
      ListBody r \<Rightarrow> map (\<lambda>d. n_id (p_notice d)) (l_data r)
    | _ \<Rightarrow> []) = [1, 0] \<and>
   (case r_body (fst (getNotices quiet_env board dot_query)) of
      ListBody r \<Rightarrow> l_total r
    | _ \<Rightarrow> 0) = 2"
  by code_simp

lemma exam_terms_plain:
  "lq_search exam_query = Some ''EXAM'' \<and> lq_search search_query = Some ''EXAM'' \<and>
   lq_category exam_query = Some ''Academic'' \<and> lq_category search_query = None \<and>
   ''EXAM'' \<noteq> [] \<and>
   (\<forall>c\<in>set ''EXAM''. c \<noteq> CHR ''.'' \<and> c \<notin> set regex_operators)"
  by (simp add: exam_query_def search_query_def any_query_def regex_operators_def)

lemma board_selected:
  "map n_id
     (filter (\<lambda>n. matches_filters exam_query n \<and>
                (ci_substring ''EXAM'' (n_title n) \<or> ci_substring ''EXAM'' (n_content n)))
        (w_notices board)) = [0] \<and>
   map n_id
     (filter (\<lambda>n. matches_filters search_query n \<and>
                (ci_substring ''EXAM'' (n_title n) \<or> ci_substring ''EXAM'' (n_content n)))
        (w_notices board)) = [0, 1] \<and>
   r_status (fst (getNotices quiet_env board exam_query)) = 200 \<and>
   r_status (fst (getNotices quiet_env board search_query)) = 200"
  by code_simp

theorem search_plain_term_witness:
  "lq_search exam_query = Some ''EXAM'' \<and> lq_category exam_query = Some ''Academic'' \<and>
   (\<exists>ms. Notice_matching quiet_env board (build_query exam_query) = Inr ms \<and>
         map n_id ms = [0]) \<and>
   (\<exists>r. r_body (fst (getNotices quiet_env board exam_query)) = ListBody r \<and> l_total r = 1) \<and>
   lq_search search_query = Some ''EXAM'' \<and> lq_category search_query = None \<and>
   (\<exists>ms. Notice_matching quiet_env board (build_query search_query) = Inr ms \<and>
         map n_id ms = [0, 1]) \<and>
   (\<exists>r. r_body (fst (getNotices quiet_env board search_query)) = ListBody r \<and> l_total r = 2)"
proof -
  let ?P1 = "\<lambda>n. matches_filters exam_query n \<and>
                (ci_substring ''EXAM'' (n_title n) \<or> ci_substring ''EXAM'' (n_content n))"
  let ?P2 = "\<lambda>n. matches_filters search_query n \<and>
                (ci_substring ''EXAM'' (n_title n) \<or> ci_substring ''EXAM'' (n_content n))"
  note t = exam_terms_plain [THEN conjunct2, THEN conjunct2, THEN conjunct2, THEN conjunct2]
  note with_category = search_plain_term [OF exam_terms_plain [THEN conjunct1]
      t [THEN conjunct1] t [THEN conjunct2], of quiet_env board]
  note term_only = search_plain_term [OF exam_terms_plain [THEN conjunct2, THEN conjunct1]
      t [THEN conjunct1] t [THEN conjunct2], of quiet_env board]
  note ids1 = board_selected [THEN conjunct1]
  note ids2 = board_selected [THEN conjunct2, THEN conjunct1]
  note ok1 = board_selected [THEN conjunct2, THEN conjunct2, THEN conjunct1]
  note ok2 = board_selected [THEN conjunct2, THEN conjunct2, THEN conjunct2]
  have "length (map n_id (filter ?P1 (w_notices board))) = length [0::nat]"
    by (simp only: ids1)
  then have l1: "length (filter ?P1 (w_notices board)) = 1" by simp
  have "length (map n_id (filter ?P2 (w_notices board))) = length [0::nat, 1]"
    by (simp only: ids2)
  then have l2: "length (filter ?P2 (w_notices board)) = 2" by simp
  have m1: "\<exists>ms. Notice_matching quiet_env board (build_query exam_query) = Inr ms \<and>
                map n_id ms = [0]"
    using with_category [THEN conjunct1] ids1 by (intro exI conjI)
  have m2: "\<exists>ms. Notice_matching quiet_env board (build_query search_query) = Inr ms \<and>
                map n_id ms = [0, 1]"
    using term_only [THEN conjunct1] ids2 by (intro exI conjI)
  have r1: "\<exists>r. r_body (fst (getNotices quiet_env board exam_query)) = ListBody r \<and>
               l_total r = 1"
    using with_category [THEN conjunct2, THEN mp, OF ok1] by (simp only: l1)
  have r2: "\<exists>r. r_body (fst (getNotices quiet_env board search_query)) = ListBody r \<and>
               l_total r = 2"
    using term_only [THEN conjunct2, THEN mp, OF ok2] by (simp only: l2)
  show ?thesis
    by (intro conjI m1 m2 r1 r2 exam_terms_plain [THEN conjunct1]
        exam_terms_plain [THEN conjunct2, THEN conjunct1]
        exam_terms_plain [THEN conjunct2, THEN conjunct2, THEN conjunct1]
        exam_terms_plain [THEN conjunct2, THEN conjunct2, THEN conjunct2, THEN conjunct1])
qed

section \<open>Listing\<close>










end
